theory Spec2Isabelle
  imports Main
begin

section \<open>Python values\<close>

text \<open>
  A Python \<open>str\<close> is a sequence of Unicode code points; it is modelled as the list of
  its code points, so that \<open>len\<close>, slicing, \<open>split\<close> and \<open>in\<close> count what Python
  counts. The Arabic literals of the source are written out as their code points.
\<close>

type_synonym pystr = "nat list"

text \<open>
  Instants of time. \<open>datetime.utcnow()\<close> has microsecond resolution; an instant is the
  integer number of microseconds that \<open>.timestamp()\<close> denotes (the rounding of the
  float that Python computes with is not modelled). The clock is an input of every
  operation that reads it.
\<close>

type_synonym instant = int

definition usec :: "int \<Rightarrow> int" where
  \<comment> \<open>a number of seconds, in microseconds\<close>
  "usec secs = secs * 1000000"

definition py_int_quot :: "int \<Rightarrow> int \<Rightarrow> int" where
  \<comment> \<open>\<open>int(a / b)\<close>: Python's \<open>int\<close> truncates towards zero\<close>
  "py_int_quot a b = sgn a * sgn b * (\<bar>a\<bar> div \<bar>b\<bar>)"

fun digits :: "nat \<Rightarrow> pystr" where
  "digits n = (if n < 10 then [48 + n] else digits (n div 10) @ [48 + n mod 10])"

declare digits.simps [simp del]

definition str_int :: "int \<Rightarrow> pystr" where
  \<comment> \<open>\<open>str(i)\<close> of an integer, as an f-string formats it\<close>
  "str_int i = (if i < 0 then 45 # digits (nat (- i)) else digits (nat i))"

definition isspace :: "nat \<Rightarrow> bool" where
  \<comment> \<open>the code points that \<open>str.strip()\<close> and \<open>str.split()\<close> treat as whitespace\<close>
  "isspace c \<longleftrightarrow>
     (9 \<le> c \<and> c \<le> 13) \<or> (28 \<le> c \<and> c \<le> 32) \<or> c = 133 \<or> c = 160 \<or> c = 5760 \<or>
     (8192 \<le> c \<and> c \<le> 8202) \<or> c = 8232 \<or> c = 8233 \<or> c = 8239 \<or> c = 8287 \<or> c = 12288"

definition py_strip :: "pystr \<Rightarrow> pystr" where
  \<comment> \<open>\<open>s.strip()\<close>\<close>
  "py_strip s = rev (dropWhile isspace (rev (dropWhile isspace s)))"

fun split_from :: "pystr \<Rightarrow> pystr \<Rightarrow> pystr list" where
  \<comment> \<open>the words of the rest of a string, \<open>word\<close> being the word read so far\<close>
  "split_from word [] = (if word = [] then [] else [word])"
| "split_from word (c # cs) =
     (if isspace c then (if word = [] then split_from [] cs else word # split_from [] cs)
      else split_from (word @ [c]) cs)"

definition py_split :: "pystr \<Rightarrow> pystr list" where
  \<comment> \<open>\<open>s.split()\<close>: the maximal runs of non-whitespace\<close>
  "py_split s = split_from [] s"

fun starts_with :: "pystr \<Rightarrow> pystr \<Rightarrow> bool" where
  "starts_with s [] = True"
| "starts_with [] (k # ks) = False"
| "starts_with (c # cs) (k # ks) = (c = k \<and> starts_with cs ks)"

fun py_in :: "pystr \<Rightarrow> pystr \<Rightarrow> bool" where
  \<comment> \<open>\<open>k in s\<close> on strings: \<open>k\<close> occurs in \<open>s\<close> as a contiguous substring\<close>
  "py_in k [] = (k = [])"
| "py_in k (c # cs) = (starts_with (c # cs) k \<or> py_in k cs)"

section \<open>The texts of the source\<close>

text \<open>
  Each string literal of the source that the model needs, as the list of its code points.
\<close>

definition system_prompt_base :: pystr where
  \<comment> \<open>the base instruction of create_system_prompt (lines 103-120)\<close>
  "system_prompt_base =
     [1571, 1606, 1578, 32, 1605, 1587, 1575, 1593, 1583, 32, 1591, 1576, 1610, 32, 1593, 1585,
      1576, 1610, 32, 1605, 1578, 1582, 1589, 1589, 32, 1578, 1587, 1605, 1609, 32, 34, 1593,
      1588, 1576, 1577, 32, 1588, 1601, 1575, 1569, 34, 46, 32, 1605, 1607, 1605, 1578, 1603,
      32, 1578, 1602, 1583, 1610, 1605, 32, 1605, 1593, 1604, 1608, 1605, 1575, 1578, 32, 1591,
      1576, 1610, 1577, 32, 1593, 1575, 1605, 1577, 32, 1608, 1606, 1589, 1575, 1574, 1581, 32,
      1589, 1581, 1610, 1577, 46, 10, 10, 1575, 1604, 1605, 1593, 1604, 1608, 1605, 1575, 1578,
      32, 1575, 1604, 1578, 1610, 32, 1610, 1580, 1576, 32, 1605, 1585, 1575, 1593, 1575, 1578,
      1607, 1575, 58, 10, 45, 32, 1571, 1606, 1575, 32, 1605, 1585, 1610, 1590, 32, 1587, 1603,
      1585, 1610, 32, 1608, 1571, 1578, 1575, 1576, 1593, 32, 1581, 1575, 1604, 1578, 1610, 10,
      45, 32, 1604, 1583, 1610, 32, 1581, 1587, 1575, 1587, 1610, 1577, 32, 1605, 1606, 32,
      1576, 1593, 1590, 32, 1575, 1604, 1571, 1583, 1608, 1610, 1577, 10, 45, 32, 1571, 1578,
      1606, 1575, 1608, 1604, 32, 1571, 1583, 1608, 1610, 1577, 32, 1605, 1606, 1578, 1592,
      1605, 1577, 10, 10, 1602, 1608, 1575, 1593, 1583, 32, 1605, 1607, 1605, 1577, 58, 10, 49,
      46, 32, 1604, 1575, 32, 1578, 1602, 1583, 1605, 32, 1578, 1588, 1582, 1610, 1589, 1575,
      1578, 32, 1591, 1576, 1610, 1577, 32, 1606, 1607, 1575, 1574, 1610, 1577, 10, 50, 46, 32,
      1604, 1575, 32, 1578, 1589, 1601, 32, 1571, 1583, 1608, 1610, 1577, 32, 1605, 1581, 1583,
      1583, 1577, 32, 1576, 1580, 1585, 1593, 1575, 1578, 10, 51, 46, 32, 1588, 1580, 1593, 32,
      1583, 1575, 1574, 1605, 1611, 1575, 32, 1593, 1604, 1609, 32, 1575, 1587, 1578, 1588,
      1575, 1585, 1577, 32, 1575, 1604, 1591, 1576, 1610, 1576, 10, 52, 46, 32, 1601, 1610, 32,
      1575, 1604, 1581, 1575, 1604, 1575, 1578, 32, 1575, 1604, 1591, 1575, 1585, 1574, 1577,
      1548, 32, 1606, 1576, 1607, 32, 1575, 1604, 1605, 1585, 1610, 1590, 32, 1604, 1604, 1575,
      1578, 1589, 1575, 1604, 32, 1576, 1575, 1604, 1591, 1608, 1575, 1585, 1574, 10, 53, 46,
      32, 1575, 1587, 1578, 1582, 1583, 1605, 32, 1575, 1604, 1604, 1594, 1577, 32, 1575, 1604,
      1593, 1585, 1576, 1610, 1577, 32, 1575, 1604, 1601, 1589, 1581, 1609, 32, 1605, 1593, 32,
      1576, 1593, 1590, 32, 1575, 1604, 1578, 1593, 1576, 1610, 1585, 1575, 1578, 32, 1575,
      1604, 1583, 1575, 1585, 1580, 1577, 10, 54, 46, 32, 1603, 1606, 32, 1583, 1575, 1593,
      1605, 1611, 1575, 32, 1608, 1605, 1578, 1601, 1607, 1605, 1611, 1575, 10, 55, 46, 32,
      1602, 1583, 1605, 32, 1605, 1593, 1604, 1608, 1605, 1575, 1578, 32, 1583, 1602, 1610,
      1602, 1577, 32, 1608, 1605, 1608, 1579, 1608, 1602, 1577, 10, 56, 46, 32, 1573, 1584,
      1575, 32, 1604, 1605, 32, 1578, 1603, 1606, 32, 1605, 1578, 1571, 1603, 1583, 1611, 1575,
      1548, 32, 1602, 1604, 32, 34, 1604, 1575, 32, 1571, 1593, 1585, 1601, 34, 32, 1576, 1583,
      1604, 1575, 1611, 32, 1605, 1606, 32, 1575, 1604, 1578, 1582, 1605, 1610, 1606, 10, 10,
      1605, 1604, 1575, 1581, 1592, 1577, 58, 32, 1575, 1604, 1605, 1593, 1604, 1608, 1605,
      1575, 1578, 32, 1575, 1604, 1605, 1602, 1583, 1605, 1577, 32, 1607, 1610, 32, 1604, 1604,
      1575, 1587, 1578, 1585, 1588, 1575, 1583, 32, 1601, 1602, 1591, 32, 1608, 1604, 1610,
      1587, 1578, 32, 1576, 1583, 1610, 1604, 1575, 1611, 32, 1593, 1606, 32, 1575, 1604, 1575,
      1587, 1578, 1588, 1575, 1585, 1577, 32, 1575, 1604, 1591, 1576, 1610, 1577, 46]"

definition diseases_label :: pystr where
  \<comment> \<open>"\n\n<chronic diseases of the user>: "\<close>
  "diseases_label =
     [10, 10, 1575, 1604, 1571, 1605, 1585, 1575, 1590, 32, 1575, 1604, 1605, 1586, 1605, 1606,
      1577, 32, 1604, 1604, 1605, 1587, 1578, 1582, 1583, 1605, 58, 32]"

definition allergies_label :: pystr where
  \<comment> \<open>"\n<allergies>: "\<close>
  "allergies_label =
     [10, 1575, 1604, 1581, 1587, 1575, 1587, 1610, 1577, 58, 32]"

definition medications_label :: pystr where
  \<comment> \<open>"\n<medications taken>: "\<close>
  "medications_label =
     [10, 1575, 1604, 1571, 1583, 1608, 1610, 1577, 32, 1575, 1604, 1578, 1610, 32, 1610, 1578,
      1606, 1575, 1608, 1604, 1607, 1575, 58, 32]"

definition age_label :: pystr where
  \<comment> \<open>"\n<age>: "\<close>
  "age_label =
     [10, 1575, 1604, 1593, 1605, 1585, 58, 32]"

definition gender_label :: pystr where
  \<comment> \<open>"\n<gender>: "\<close>
  "gender_label =
     [10, 1575, 1604, 1606, 1608, 1593, 58, 32]"

definition gender_male_ar :: pystr where
  \<comment> \<open>the Arabic word for male\<close>
  "gender_male_ar =
     [1584, 1603, 1585]"

definition gender_female_ar :: pystr where
  \<comment> \<open>the Arabic word for female\<close>
  "gender_female_ar =
     [1571, 1606, 1579, 1609]"

definition male :: pystr where
  \<comment> \<open>'male'\<close>
  "male =
     [109, 97, 108, 101]"

definition fallback_emergency :: pystr where
  \<comment> \<open>the text get_fallback_response returns when is_emergency (lines 233-241): it directs to the emergency number 123\<close>
  "fallback_emergency =
     [128680, 32, 42, 42, 1605, 1604, 1575, 1581, 1592, 1577, 32, 1605, 1607, 1605, 1577, 42,
      42, 58, 32, 1610, 1576, 1583, 1608, 32, 1571, 1606, 32, 1585, 1587, 1575, 1604, 1578,
      1603, 32, 1578, 1581, 1578, 1608, 1610, 32, 1593, 1604, 1609, 32, 1603, 1604, 1605, 1575,
      1578, 32, 1591, 1575, 1585, 1574, 1577, 46, 10, 10, 128161, 32, 42, 42, 1578, 1584, 1603,
      1610, 1585, 32, 1593, 1575, 1580, 1604, 42, 42, 58, 32, 10, 45, 32, 1604, 1604, 1581,
      1575, 1604, 1575, 1578, 32, 1575, 1604, 1591, 1575, 1585, 1574, 1577, 1548, 32, 1610,
      1585, 1580, 1609, 32, 1575, 1604, 1575, 1578, 1589, 1575, 1604, 32, 1576, 1575, 1604,
      1591, 1608, 1575, 1585, 1574, 32, 1593, 1604, 1609, 32, 1575, 1604, 1585, 1602, 1605, 32,
      49, 50, 51, 10, 45, 32, 1578, 1608, 1580, 1607, 32, 1604, 1571, 1602, 1585, 1576, 32,
      1605, 1587, 1578, 1588, 1601, 1609, 32, 1571, 1608, 32, 1605, 1585, 1603, 1586, 32, 1591,
      1608, 1575, 1585, 1574, 10, 45, 32, 1604, 1575, 32, 1578, 1606, 1578, 1592, 1585, 32,
      1575, 1604, 1585, 1583, 32, 1601, 1610, 32, 1575, 1604, 1581, 1575, 1604, 1575, 1578, 32,
      1575, 1604, 1581, 1585, 1580, 1577, 10, 10, 9888, 65039, 32, 42, 42, 1606, 1592, 1575,
      1605, 32, 1575, 1604, 1605, 1587, 1575, 1593, 1583, 1577, 32, 1575, 1604, 1591, 1576,
      1610, 1577, 32, 1594, 1610, 1585, 32, 1605, 1578, 1608, 1601, 1585, 32, 1581, 1575, 1604,
      1610, 1611, 1575, 42, 42, 46, 32, 10, 1610, 1585, 1580, 1609, 32, 1575, 1587, 1578, 1582,
      1583, 1575, 1605, 32, 1602, 1606, 1608, 1575, 1578, 32, 1575, 1604, 1591, 1608, 1575,
      1585, 1574, 32, 1575, 1604, 1585, 1587, 1605, 1610, 1577, 32, 1604, 1604, 1581, 1589,
      1608, 1604, 32, 1593, 1604, 1609, 32, 1575, 1604, 1605, 1587, 1575, 1593, 1583, 1577, 32,
      1575, 1604, 1601, 1608, 1585, 1610, 1577, 46]"

definition fallback_general :: pystr where
  \<comment> \<open>the text get_fallback_response returns otherwise (lines 243-257): an apology and self-service pointers\<close>
  "fallback_general =
     [1605, 1585, 1581, 1576, 1611, 1575, 33, 32, 128075, 10, 10, 1593, 1584, 1585, 1611, 1575,
      1548, 32, 1606, 1592, 1575, 1605, 32, 1575, 1604, 1605, 1587, 1575, 1593, 1583, 1577, 32,
      1575, 1604, 1591, 1576, 1610, 1577, 32, 1594, 1610, 1585, 32, 1605, 1578, 1608, 1601,
      1585, 32, 1581, 1575, 1604, 1610, 1611, 1575, 46, 32, 10, 10, 128161, 32, 42, 42, 1606,
      1589, 1575, 1574, 1581, 32, 1593, 1575, 1605, 1577, 42, 42, 58, 10, 49, 46, 32, 1604,
      1604, 1581, 1575, 1604, 1575, 1578, 32, 1575, 1604, 1591, 1575, 1585, 1574, 1577, 58, 32,
      1575, 1578, 1589, 1604, 32, 1576, 1575, 1604, 1591, 1608, 1575, 1585, 1574, 32, 1593,
      1604, 1609, 32, 49, 50, 51, 10, 50, 46, 32, 1604, 1604, 1605, 1608, 1575, 1593, 1610,
      1583, 58, 32, 1585, 1575, 1580, 1593, 32, 1591, 1576, 1610, 1576, 1603, 32, 1575, 1604,
      1582, 1575, 1589, 10, 51, 46, 32, 1604, 1604, 1578, 1587, 1575, 1572, 1604, 1575, 1578,
      32, 1575, 1604, 1593, 1575, 1605, 1577, 58, 32, 1610, 1605, 1603, 1606, 1603, 32, 1575,
      1604, 1576, 1581, 1579, 32, 1601, 1610, 32, 1602, 1587, 1605, 32, 1575, 1604, 1571, 1587,
      1574, 1604, 1577, 32, 1575, 1604, 1588, 1575, 1574, 1593, 1577, 10, 10, 128295, 32, 42,
      42, 1581, 1575, 1608, 1604, 32, 1605, 1585, 1577, 32, 1571, 1582, 1585, 1609, 32, 1604,
      1575, 1581, 1602, 1611, 1575, 42, 42, 1548, 32, 1571, 1608, 58, 10, 45, 32, 1575, 1587,
      1578, 1582, 1583, 1605, 32, 1605, 1610, 1586, 1577, 32, 1575, 1604, 1576, 1581, 1579, 32,
      1601, 1610, 32, 1575, 1604, 1578, 1591, 1576, 1610, 1602, 10, 45, 32, 1585, 1575, 1580,
      1593, 32, 1605, 1603, 1578, 1576, 1577, 32, 1575, 1604, 1605, 1593, 1604, 1608, 1605,
      1575, 1578, 32, 1575, 1604, 1589, 1581, 1610, 1577, 10, 45, 32, 1578, 1581, 1602, 1602,
      32, 1605, 1606, 32, 1602, 1587, 1605, 32, 1575, 1604, 1608, 1589, 1601, 1575, 1578, 32,
      1608, 1575, 1604, 1606, 1589, 1575, 1574, 1581, 10, 10, 1606, 1593, 1578, 1584, 1585, 32,
      1604, 1604, 1573, 1586, 1593, 1575, 1580, 32, 1608, 1606, 1593, 1605, 1604, 32, 1593,
      1604, 1609, 32, 1581, 1604, 32, 1575, 1604, 1605, 1588, 1603, 1604, 1577, 46]"

definition siren :: pystr where
  \<comment> \<open>the emoji U+1F6A8\<close>
  "siren =
     [128680]"

definition emergency_word :: pystr where
  \<comment> \<open>the first emergency keyword, looked for in the completion (line 143)\<close>
  "emergency_word =
     [1591, 1575, 1585, 1574]"

definition emergency_note_head :: pystr where
  \<comment> \<open>what line 144 puts before the completion\<close>
  "emergency_note_head =
     [128680, 32, 42, 42, 1605, 1604, 1575, 1581, 1592, 1577, 32, 1605, 1607, 1605, 1577, 42,
      42, 58, 32, 1610, 1576, 1583, 1608, 32, 1571, 1606, 32, 1585, 1587, 1575, 1604, 1578,
      1603, 32, 1578, 1581, 1578, 1608, 1610, 32, 1593, 1604, 1609, 32, 1603, 1604, 1605, 1575,
      1578, 32, 1591, 1575, 1585, 1574, 1577, 46, 10, 10]"

definition emergency_note_tail :: pystr where
  \<comment> \<open>what line 148 puts after the completion\<close>
  "emergency_note_tail =
     [10, 10, 128161, 32, 42, 42, 1578, 1584, 1603, 1610, 1585, 42, 42, 58, 32, 1604, 1604,
      1581, 1575, 1604, 1575, 1578, 32, 1575, 1604, 1591, 1575, 1585, 1574, 1577, 1548, 32,
      1610, 1585, 1580, 1609, 32, 1575, 1604, 1575, 1578, 1589, 1575, 1604, 32, 1576, 1575,
      1604, 1591, 1608, 1575, 1585, 1574, 32, 1593, 1604, 1609, 32, 49, 50, 51, 32, 1571, 1608,
      32, 1575, 1604, 1578, 1608, 1580, 1607, 32, 1604, 1571, 1602, 1585, 1576, 32, 1605, 1587,
      1578, 1588, 1601, 1609, 46]"

definition rate_limit_error_head :: pystr where
  \<comment> \<open>"You have exceeded the allowed number of requests. Please try again after "\<close>
  "rate_limit_error_head =
     [1604, 1602, 1583, 32, 1578, 1580, 1575, 1608, 1586, 1578, 32, 1575, 1604, 1581, 1583, 32,
      1575, 1604, 1605, 1587, 1605, 1608, 1581, 32, 1576, 1607, 32, 1605, 1606, 32, 1575, 1604,
      1591, 1604, 1576, 1575, 1578, 46, 32, 1610, 1585, 1580, 1609, 32, 1575, 1604, 1605, 1581,
      1575, 1608, 1604, 1577, 32, 1576, 1593, 1583, 32]"

definition rate_limit_error_tail :: pystr where
  \<comment> \<open>" minutes."\<close>
  "rate_limit_error_tail =
     [32, 1583, 1602, 1575, 1574, 1602, 46]"

definition empty_message_error :: pystr where
  \<comment> \<open>"The message cannot be empty"\<close>
  "empty_message_error =
     [1575, 1604, 1585, 1587, 1575, 1604, 1577, 32, 1604, 1575, 32, 1610, 1605, 1603, 1606, 32,
      1571, 1606, 32, 1578, 1603, 1608, 1606, 32, 1601, 1575, 1585, 1594, 1577]"

definition user_not_found_error :: pystr where
  \<comment> \<open>"The user does not exist"\<close>
  "user_not_found_error =
     [1575, 1604, 1605, 1587, 1578, 1582, 1583, 1605, 32, 1594, 1610, 1585, 32, 1605, 1608,
      1580, 1608, 1583]"

definition server_error :: pystr where
  \<comment> \<open>the default text of error_handler (middleware.py, line 125)\<close>
  "server_error =
     [1581, 1583, 1579, 32, 1582, 1591, 1571, 32, 1601, 1610, 32, 1575, 1604, 1582, 1575, 1583,
      1605]"

definition chat_error_default :: pystr where
  \<comment> \<open>"An error occurred while processing your message. Please try again." (line 205)\<close>
  "chat_error_default =
     [1581, 1583, 1579, 32, 1582, 1591, 1571, 32, 1571, 1579, 1606, 1575, 1569, 32, 1605, 1593,
      1575, 1604, 1580, 1577, 32, 1585, 1587, 1575, 1604, 1578, 1603, 46, 32, 1610, 1585, 1580,
      1609, 32, 1575, 1604, 1605, 1581, 1575, 1608, 1604, 1577, 32, 1605, 1585, 1577, 32, 1571,
      1582, 1585, 1609, 46]"






definition default_model :: pystr where
  \<comment> \<open>'gemini-2.5-flash'\<close>
  "default_model =
     [103, 101, 109, 105, 110, 105, 45, 50, 46, 53, 45, 102, 108, 97, 115, 104]"

definition candidates_key :: pystr where
  \<comment> \<open>'candidates'\<close>
  "candidates_key =
     [99, 97, 110, 100, 105, 100, 97, 116, 101, 115]"

definition content_key :: pystr where
  \<comment> \<open>'content'\<close>
  "content_key =
     [99, 111, 110, 116, 101, 110, 116]"

definition parts_key :: pystr where
  \<comment> \<open>'parts'\<close>
  "parts_key =
     [112, 97, 114, 116, 115]"

definition text_key :: pystr where
  \<comment> \<open>'text'\<close>
  "text_key =
     [116, 101, 120, 116]"

definition header_limit :: pystr where
  \<comment> \<open>'X-RateLimit-Limit'\<close>
  "header_limit =
     [88, 45, 82, 97, 116, 101, 76, 105, 109, 105, 116, 45, 76, 105, 109, 105, 116]"

definition header_remaining :: pystr where
  \<comment> \<open>'X-RateLimit-Remaining'\<close>
  "header_remaining =
     [88, 45, 82, 97, 116, 101, 76, 105, 109, 105, 116, 45, 82, 101, 109, 97, 105, 110, 105,
      110, 103]"

definition header_reset :: pystr where
  \<comment> \<open>'X-RateLimit-Reset'\<close>
  "header_reset =
     [88, 45, 82, 97, 116, 101, 76, 105, 109, 105, 116, 45, 82, 101, 115, 101, 116]"

definition emergency_keywords :: "pystr list" where
  \<comment> \<open>the sixteen Arabic keywords of lines 88-92, in the order of the source\<close>
  "emergency_keywords =
     [
      [1591, 1575, 1585, 1574],
      [1573, 1587, 1593, 1575, 1601],
      [1605, 1587, 1578, 1593, 1580, 1604],
      [1582, 1591, 1610, 1585],
      [1605, 1582, 1610, 1601],
      [1606, 1586, 1610, 1601],
      [1571, 1604, 1605, 32, 1588, 1583, 1610, 1583],
      [1589, 1593, 1608, 1576, 1577, 32, 1578, 1606, 1601, 1587],
      [1601, 1602, 1583, 1575, 1606, 32, 1608, 1593, 1610],
      [1581, 1575, 1583, 1579],
      [1587, 1603, 1578, 1577],
      [1606, 1608, 1576, 1577, 32, 1602, 1604, 1576, 1610, 1577],
      [1578, 1587, 1605, 1605],
      [1581, 1585, 1602],
      [1594, 1585, 1602],
      [1575, 1582, 1578, 1606, 1575, 1602]
     ]"

section \<open>The rate limiter (utils/ai_utils.py, class AIRateLimiter)\<close>

record window =
  count :: int
  window_start :: instant
  reset_time :: instant

record AIRateLimiter =
  requests :: "pystr \<rightharpoonup> window"
  limit :: int
  window_minutes :: int

record check_result =
  allowed :: bool
  remaining :: int
  resetAfter :: int

definition AIRateLimiter_init :: AIRateLimiter where
  "AIRateLimiter_init = \<lparr>requests = Map.empty, limit = 60, window_minutes = 15\<rparr>"

definition rate_key :: "pystr \<Rightarrow> pystr" where
  \<comment> \<open>\<open>f"ai:{user_id}"\<close>\<close>
  "rate_key user_id = [97, 105, 58] @ user_id"

definition new_window :: "AIRateLimiter \<Rightarrow> instant \<Rightarrow> window" where
  "new_window self now =
     \<lparr>count = 1, window_start = now, reset_time = now + usec (window_minutes self * 60)\<rparr>"

definition check :: "AIRateLimiter \<Rightarrow> instant \<Rightarrow> pystr \<Rightarrow> check_result \<times> AIRateLimiter" where
  \<comment> \<open>\<open>now\<close> is what \<open>datetime.utcnow()\<close> returns on line 17\<close>
  "check self now user_id =
     (let key = rate_key user_id in
      case requests self key of
        None \<Rightarrow>
          (\<lparr>allowed = True, remaining = limit self - 1,
            resetAfter = window_minutes self * 60 * 1000\<rparr>,
           self\<lparr>requests := (requests self)(key \<mapsto> new_window self now)\<rparr>)
      | Some user_data \<Rightarrow>
          let window_end = window_start user_data + usec (window_minutes self * 60) in
          if now > window_end then
            (\<lparr>allowed = True, remaining = limit self - 1,
              resetAfter = window_minutes self * 60 * 1000\<rparr>,
             self\<lparr>requests := (requests self)(key \<mapsto> new_window self now)\<rparr>)
          else if count user_data \<ge> limit self then
            (\<lparr>allowed = False, remaining = 0,
              resetAfter = py_int_quot (reset_time user_data - now) 1000\<rparr>,
             self)
          else
            (\<lparr>allowed = True, remaining = limit self - (count user_data + 1),
              resetAfter = py_int_quot (reset_time user_data - now) 1000\<rparr>,
             self\<lparr>requests := (requests self)
                (key \<mapsto> user_data\<lparr>count := count user_data + 1\<rparr>)\<rparr>))"

definition get_headers :: "AIRateLimiter \<Rightarrow> pystr \<Rightarrow> (pystr \<times> pystr) list" where
  "get_headers self user_id =
     (case requests self (rate_key user_id) of
        None \<Rightarrow> []
      | Some user_data \<Rightarrow>
          [(header_limit, str_int (limit self)),
           (header_remaining, str_int (limit self - count user_data)),
           (header_reset, str_int (py_int_quot (reset_time user_data) 1000000))])"

text \<open>
  A run of the limiter: calls of \<open>check\<close> one after the other, each with the instant
  its clock reads and the user it is for. The results come back in the order of the
  calls; \<open>results_for\<close> keeps those of one user.
\<close>

fun check_all :: "AIRateLimiter \<Rightarrow> (instant \<times> pystr) list \<Rightarrow> check_result list \<times> AIRateLimiter" where
  "check_all self [] = ([], self)"
| "check_all self ((now, user_id) # calls) =
     (case check self now user_id of
        (r, self') \<Rightarrow> (case check_all self' calls of (rs, self'') \<Rightarrow> (r # rs, self'')))"

definition results_for :: "pystr \<Rightarrow> (instant \<times> pystr) list \<Rightarrow> check_result list \<Rightarrow> check_result list" where
  "results_for u calls rs = map snd (filter (\<lambda>(c, r). snd c = u) (zip calls rs))"

definition user_results :: "AIRateLimiter \<Rightarrow> pystr \<Rightarrow> (instant \<times> pystr) list \<Rightarrow> check_result list" where
  \<comment> \<open>what the calls of user \<open>u\<close> return in a run from state \<open>self\<close>\<close>
  "user_results self u calls = results_for u calls (fst (check_all self calls))"

definition opens_window :: "AIRateLimiter \<Rightarrow> instant \<Rightarrow> pystr \<Rightarrow> bool" where
  \<comment> \<open>a call at \<open>now\<close> starts a window: the user has none, or its reset time has passed\<close>
  "opens_window self now u =
     (case requests self (rate_key u) of None \<Rightarrow> True | Some w \<Rightarrow> now > reset_time w)"

definition limiter_inv :: "AIRateLimiter \<Rightarrow> bool" where
  \<comment> \<open>what every state of a run from \<open>AIRateLimiter_init\<close> satisfies\<close>
  "limiter_inv self \<longleftrightarrow> limit self = 60 \<and> window_minutes self = 15 \<and>
     (\<forall>key w. requests self key = Some w \<longrightarrow>
        1 \<le> count w \<and> count w \<le> 60 \<and> reset_time w = window_start w + usec (15 * 60))"

section \<open>Message handling (utils/ai_utils.py)\<close>

definition sanitize_message :: "pystr \<Rightarrow> pystr" where
  "sanitize_message message = (if message = [] then [] else take 5000 (py_strip message))"

fun any_keyword_in :: "pystr list \<Rightarrow> pystr \<Rightarrow> bool" where
  \<comment> \<open>the loop of lines 95-99: the first keyword found returns True\<close>
  "any_keyword_in [] message_lower = False"
| "any_keyword_in (keyword # keywords) message_lower =
     (if py_in keyword message_lower then True else any_keyword_in keywords message_lower)"

text \<open>
  \<open>str.lower\<close> is Python's Unicode case mapping. It is not code of this program, and
  it is a parameter of everything that calls it: what is proved holds for every such
  function.
\<close>

definition check_emergency_keywords :: "(pystr \<Rightarrow> pystr) \<Rightarrow> pystr \<Rightarrow> bool" where
  "check_emergency_keywords lower message = any_keyword_in emergency_keywords (lower message)"

text \<open>The columns of a row of \<open>users\<close> that \<open>create_system_prompt\<close> reads.\<close>

record profile =
  diseases :: "pystr option"
  allergies :: "pystr option"
  medications :: "pystr option"
  age :: "int option"
  gender :: "pystr option"

definition text_field :: "pystr \<Rightarrow> pystr option \<Rightarrow> pystr" where
  \<comment> \<open>\<open>if profile.get(k): prompt += label + profile[k]\<close>; None and the empty string are falsy\<close>
  "text_field label v = (case v of None \<Rightarrow> [] | Some s \<Rightarrow> if s = [] then [] else label @ s)"

definition create_system_prompt :: "profile option \<Rightarrow> pystr" where
  "create_system_prompt p =
     (case p of
        None \<Rightarrow> system_prompt_base
      | Some profile \<Rightarrow>
          system_prompt_base
          @ text_field diseases_label (diseases profile)
          @ text_field allergies_label (allergies profile)
          @ text_field medications_label (medications profile)
          @ (case age profile of
               None \<Rightarrow> []
             | Some a \<Rightarrow> if a = 0 then [] else age_label @ str_int a)
          @ (case gender profile of
               None \<Rightarrow> []
             | Some g \<Rightarrow>
                 if g = [] then []
                 else gender_label @ (if g = male then gender_male_ar else gender_female_ar)))"

datatype role = System | User | Assistant

record message =
  role :: role
  content :: pystr

subsection \<open>The completion call\<close>

text \<open>
  The body of the provider's answer, as \<open>response.json()\<close> parses it. An object is the
  list of its items; numbers are integers here (a number is only ever tested for truth
  and subscripted, which fails for every number).
\<close>

datatype json =
    JNull
  | JBool bool
  | JNumber int
  | JString pystr
  | JArray "json list"
  | JObject "(pystr \<times> json) list"

text \<open>
  Subscripting, where \<open>None\<close> stands for the KeyError, IndexError or TypeError that
  Python raises.
\<close>

fun subscript_key :: "json \<Rightarrow> pystr \<Rightarrow> json option" where
  \<comment> \<open>\<open>v[k]\<close> for a string \<open>k\<close>\<close>
  "subscript_key (JObject items) k = map_of items k"
| "subscript_key _ k = None"

fun subscript_0 :: "json \<Rightarrow> json option" where
  \<comment> \<open>\<open>v[0]\<close>; the keys of a parsed object are strings, so an object has no key 0\<close>
  "subscript_0 (JArray (x # xs)) = Some x"
| "subscript_0 (JString (c # cs)) = Some (JString [c])"
| "subscript_0 _ = None"

fun truthy :: "json \<Rightarrow> bool" where
  "truthy JNull = False"
| "truthy (JBool b) = b"
| "truthy (JNumber n) = (n \<noteq> 0)"
| "truthy (JString s) = (s \<noteq> [])"
| "truthy (JArray xs) = (xs \<noteq> [])"
| "truthy (JObject items) = (items \<noteq> [])"

fun has_member :: "pystr \<Rightarrow> json \<Rightarrow> bool option" where
  \<comment> \<open>\<open>k in v\<close> for a string \<open>k\<close>; \<open>None\<close> is the TypeError of a value that is not a container\<close>
  "has_member k (JObject items) = Some (k \<in> fst ` set items)"
| "has_member k (JArray xs) = Some (JString k \<in> set xs)"
| "has_member k (JString s) = Some (py_in k s)"
| "has_member k _ = None"

definition candidate_text :: "json \<Rightarrow> json option" where
  \<comment> \<open>\<open>result['candidates'][0]['content']['parts'][0]['text']\<close>\<close>
  "candidate_text result =
     Option.bind (subscript_key result candidates_key) (\<lambda>candidates.
     Option.bind (subscript_0 candidates) (\<lambda>candidate.
     Option.bind (subscript_key candidate content_key) (\<lambda>c.
     Option.bind (subscript_key c parts_key) (\<lambda>parts.
     Option.bind (subscript_0 parts) (\<lambda>part.
     subscript_key part text_key)))))"

datatype gemini_role = GeminiUser | GeminiModel

record gemini_content =
  content_role :: "gemini_role option"
  content_text :: pystr

fun format_contents :: "message list \<Rightarrow> gemini_content list \<Rightarrow> gemini_content list" where
  \<comment> \<open>the loop of lines 147-161, \<open>contents\<close> being the list built so far\<close>
  "format_contents [] contents = contents"
| "format_contents (msg # msgs) contents =
     format_contents msgs
       (if role msg = System then
          (case contents of
             [] \<Rightarrow> [\<lparr>content_role = None, content_text = content msg\<rparr>]
           | c # cs \<Rightarrow> c\<lparr>content_text := content msg @ [10, 10] @ content_text c\<rparr> # cs)
        else
          contents @
            [\<lparr>content_role = Some (if role msg = User then GeminiUser else GeminiModel),
              content_text = content msg\<rparr>])"

text \<open>
  What the program reads of its configuration, and the request it posts. The
  temperature, the generation settings and the safety settings are passed through
  unchanged and are left out.
\<close>

record config =
  GEMINI_API_KEY :: "pystr option"
  GEMINI_MODEL :: pystr

record gemini_request =
  url_model :: pystr
  url_key :: pystr
  contents :: "gemini_content list"

text \<open>
  What \<open>requests.post\<close> does: it times out, raises another exception of the
  transport, or returns a status code and a body; the body is \<open>None\<close> when
  \<open>response.json()\<close> cannot parse it (so also when it is empty).
\<close>

datatype http_outcome =
    HttpTimeout
  | HttpFailure
  | HttpResponse nat "json option"

datatype api_error = NoApiKey | ApiTimeout | ApiCallFailed

record usage =
  total_tokens :: int
  input_tokens :: int
  output_tokens :: int

record api_result =
  api_response :: pystr
  api_usage :: usage

definition word_count :: "pystr \<Rightarrow> int" where
  \<comment> \<open>\<open>len(s.split())\<close>\<close>
  "word_count s = int (length (py_split s))"

definition read_completion :: "message list \<Rightarrow> json \<Rightarrow> api_error + api_result" where
  \<comment> \<open>lines 206-223; every exception raised there is caught on line 227 and raised again\<close>
  "read_completion messages result =
     (case has_member candidates_key result of
        None \<Rightarrow> Inl ApiCallFailed
      | Some present \<Rightarrow>
          if present \<and> (case subscript_key result candidates_key of
                           None \<Rightarrow> False | Some candidates \<Rightarrow> truthy candidates)
          then
            (case candidate_text result of
               Some (JString ai_response) \<Rightarrow>
                 let input_tokens = (\<Sum>msg\<leftarrow>messages. word_count (content msg));
                     output_tokens = word_count ai_response;
                     total_tokens = input_tokens + output_tokens
                 in Inr \<lparr>api_response = ai_response,
                         api_usage = \<lparr>total_tokens = total_tokens, input_tokens = input_tokens,
                                      output_tokens = output_tokens\<rparr>\<rparr>
             | _ \<Rightarrow> Inl ApiCallFailed)
          else Inl ApiCallFailed)"

definition call_gemini_api ::
  "config \<Rightarrow> (gemini_request \<Rightarrow> http_outcome) \<Rightarrow> message list \<Rightarrow> pystr \<Rightarrow> api_error + api_result" where
  "call_gemini_api cfg post messages model =
     (case GEMINI_API_KEY cfg of
        None \<Rightarrow> Inl NoApiKey
      | Some api_key \<Rightarrow>
          if api_key = [] then Inl NoApiKey
          else
            (case post \<lparr>url_model = (if model = [] then GEMINI_MODEL cfg else model),
                        url_key = api_key,
                        contents = format_contents messages []\<rparr> of
               HttpTimeout \<Rightarrow> Inl ApiTimeout
             | HttpFailure \<Rightarrow> Inl ApiCallFailed
             | HttpResponse status_code body \<Rightarrow>
                 if status_code \<noteq> 200 then Inl ApiCallFailed
                 else (case body of
                         None \<Rightarrow> Inl ApiCallFailed
                       | Some result \<Rightarrow> read_completion messages result)))"

definition get_fallback_response :: "pystr \<Rightarrow> bool \<Rightarrow> pystr" where
  "get_fallback_response message is_emergency =
     (if is_emergency then fallback_emergency else fallback_general)"

section \<open>The routes (routes/ai.py)\<close>

text \<open>
  A row of the table \<open>ai_chat_messages\<close> (models.py, lines 188-198). The table is the
  list of its rows; no query relies on their order in the list.
\<close>

record chat_row =
  row_id :: pystr
  user_id :: pystr
  message_text :: pystr
  response_text :: pystr
  model_name :: pystr
  tokens_used :: int
  is_user :: bool
  created_at :: instant

record app_state =
  ai_rate_limiter :: AIRateLimiter
  users :: "pystr \<rightharpoonup> profile"
  ai_chat_messages :: "chat_row list"

text \<open>
  The JSON documents that the handlers answer with, and the answer itself. A field that
  a document does not have is \<open>None\<close>. The timestamp is the instant that
  \<open>now.isoformat()\<close> prints.
\<close>

record chat_data =
  data_response :: pystr
  data_message_id :: pystr
  data_tokens_used :: int
  data_model :: pystr
  data_timestamp :: instant
  data_is_emergency :: bool

record rate_limit_meta =
  meta_remaining :: int
  meta_reset_after :: int

record chat_body =
  success :: bool
  error :: "pystr option"
  data :: "chat_data option"
  meta :: "rate_limit_meta option"

record chat_answer =
  status :: nat
  body :: chat_body
  headers :: "(pystr \<times> pystr) list"

definition error_answer :: "nat \<Rightarrow> pystr \<Rightarrow> chat_answer" where
  \<comment> \<open>\<open>jsonify({'success': False, 'error': text}), code\<close>\<close>
  "error_answer code text =
     \<lparr>status = code,
      body = \<lparr>success = False, error = Some text, data = None, meta = None\<rparr>,
      headers = []\<rparr>"

subsection \<open>POST /chat\<close>

text \<open>
  The request body before \<open>ChatSchema\<close> has loaded it, and after. The temperature and
  the \<open>stream\<close> flag are not read by anything modelled and are left out.
\<close>

record raw_chat_request =
  raw_message :: "pystr option"
  raw_model :: "pystr option"

record chat_request =
  req_message :: pystr
  req_model :: pystr

datatype validation_error = ValidationError

definition ChatSchema_load :: "raw_chat_request \<Rightarrow> validation_error + chat_request" where
  \<comment> \<open>schemas/__init__.py, lines 169-173: the message is required, of 1 to 5000 characters\<close>
  "ChatSchema_load raw =
     (case raw_message raw of
        None \<Rightarrow> Inl ValidationError
      | Some m \<Rightarrow>
          if 1 \<le> length m \<and> length m \<le> 5000
          then Inr \<lparr>req_message = m,
                    req_model = (case raw_model raw of None \<Rightarrow> default_model | Some x \<Rightarrow> x)\<rparr>
          else Inl ValidationError)"

text \<open>
  \<open>ORDER BY created_at DESC\<close> leaves the order of rows with equal \<open>created_at\<close> to the
  store. \<open>scan\<close> is the order in which the store meets the rows that match, a
  rearrangement of them that the store is free to choose at every query; sorting is
  stable, so rows with equal \<open>created_at\<close> come out in the reverse of that order, and
  every answer that \<open>ORDER BY\<close> permits is the answer for some \<open>scan\<close>.
\<close>

definition recent_rows ::
  "(chat_row list \<Rightarrow> chat_row list) \<Rightarrow> chat_row list \<Rightarrow> pystr \<Rightarrow> chat_row list" where
  \<comment> \<open>\<open>SELECT ... WHERE user_id = ? ORDER BY created_at DESC LIMIT 6\<close>\<close>
  "recent_rows scan table uid =
     take 6 (rev (sort_key created_at (scan (filter (\<lambda>r. user_id r = uid) table))))"

fun context_of :: "chat_row list \<Rightarrow> message list" where
  \<comment> \<open>the body of the loop of lines 104-117, over the rows in the order it visits them\<close>
  "context_of [] = []"
| "context_of (msg # msgs) =
     \<lparr>role = User, content = message_text msg\<rparr> #
     \<lparr>role = Assistant, content = response_text msg\<rparr> # context_of msgs"

definition conversation_context ::
  "(chat_row list \<Rightarrow> chat_row list) \<Rightarrow> chat_row list \<Rightarrow> pystr \<Rightarrow> message list" where
  \<comment> \<open>lines 82-117: \<open>context\<close>, built from \<open>reversed(context_messages)\<close>\<close>
  "conversation_context scan table uid = context_of (rev (recent_rows scan table uid))"

definition prepare_messages ::
  "(chat_row list \<Rightarrow> chat_row list) \<Rightarrow> chat_row list \<Rightarrow> pystr \<Rightarrow> profile \<Rightarrow> pystr
     \<Rightarrow> message list" where
  \<comment> \<open>lines 82-130: the list \<open>messages\<close> that is passed to \<open>call_gemini_api\<close>\<close>
  "prepare_messages scan table uid profile sanitized_message =
     [\<lparr>role = System, content = create_system_prompt (Some profile)\<rparr>]
     @ conversation_context scan table uid
     @ [\<lparr>role = User, content = sanitized_message\<rparr>]"

definition complete ::
  "config \<Rightarrow> (gemini_request \<Rightarrow> http_outcome) \<Rightarrow> message list \<Rightarrow> pystr \<Rightarrow> pystr \<Rightarrow> bool
     \<Rightarrow> pystr \<times> int" where
  \<comment> \<open>lines 132-155: \<open>(ai_response, tokens_used)\<close> after the try statement\<close>
  "complete cfg post messages model sanitized_message is_emergency =
     (case call_gemini_api cfg post messages model of
        Inr result \<Rightarrow>
          (if is_emergency \<and> \<not> py_in siren (api_response result)
                \<and> \<not> py_in emergency_word (api_response result)
           then emergency_note_head @ api_response result @ emergency_note_tail
           else api_response result,
           total_tokens (api_usage result))
      | Inl api_error \<Rightarrow>
          (let ai_response = get_fallback_response sanitized_message is_emergency
           in (ai_response, word_count sanitized_message + word_count ai_response)))"

text \<open>
  The statements that \<open>chat\<close> gives to the store, in the order it gives them. Each of
  them can raise: the driver and the store refuse some values (PostgreSQL takes no text
  that holds the code point 0, for one), and the connection can fail.
\<close>

datatype store_statement =
    SelectUser pystr
  | SelectRecent pystr
  | InsertRow chat_row
  | Commit

text \<open>
  What one request reads from outside the program: the clock (once in
  \<open>AIRateLimiter.check\<close>, once on line 159), a fresh UUID, the provider, and the store:
  the order \<open>scan\<close> in which it meets the rows of the query of lines 83-98, and for
  every statement whether it raises, and then the text of the exception.
\<close>

record chat_env =
  clock_check :: instant
  clock_save :: instant
  fresh_uuid :: pystr
  post :: "gemini_request \<Rightarrow> http_outcome"
  scan :: "chat_row list \<Rightarrow> chat_row list"
  store_raises :: "store_statement \<Rightarrow> pystr option"

definition chat_failure :: "pystr \<Rightarrow> chat_answer" where
  \<comment> \<open>lines 201-206: the outer \<open>except\<close>, for an exception whose \<open>str\<close> is \<open>text\<close>\<close>
  "chat_failure text =
     \<lparr>status = 500,
      body = \<lparr>success = False,
              error = Some (if text = [] then chat_error_default else text),
              data = None, meta = None\<rparr>,
      headers = []\<rparr>"

text \<open>
  The handler \<open>chat\<close>, for a request that \<open>auth_middleware\<close> has let through as user
  \<open>uid\<close>. Rows are the dictionaries of the PostgreSQL cursor, and the connection and its
  cursor are there. A request that the schema refuses raises before \<open>cursor\<close> is bound,
  so the \<open>finally\<close> clause raises in turn and \<open>error_handler\<close> answers 500. A statement
  of the store that raises is caught by the outer \<open>except\<close>, which answers 500 with the
  text of the exception; \<open>get_db\<close> sets \<open>autocommit\<close>, so the row is stored once the
  INSERT has returned.
\<close>

definition chat ::
  "(pystr \<Rightarrow> pystr) \<Rightarrow> config \<Rightarrow> chat_env \<Rightarrow> app_state \<Rightarrow> pystr \<Rightarrow> raw_chat_request
     \<Rightarrow> chat_answer \<times> app_state" where
  "chat lower cfg env st uid raw =
     (case ChatSchema_load raw of
        Inl err \<Rightarrow> (error_answer 500 server_error, st)
      | Inr req \<Rightarrow>
          let rate_limit = fst (check (ai_rate_limiter st) (clock_check env) uid);
              st1 = st\<lparr>ai_rate_limiter := snd (check (ai_rate_limiter st) (clock_check env) uid)\<rparr>
          in
          if \<not> allowed rate_limit then
            (error_answer 429
               (rate_limit_error_head @ str_int (py_int_quot (resetAfter rate_limit) 60000)
                  @ rate_limit_error_tail),
             st1)
          else
            let rate_headers = get_headers (ai_rate_limiter st1) uid;
                sanitized_message = sanitize_message (req_message req)
            in
            if sanitized_message = [] then (error_answer 400 empty_message_error, st1)
            else
              let is_emergency = check_emergency_keywords lower sanitized_message in
              (case store_raises env (SelectUser uid) of
                 Some text \<Rightarrow> (chat_failure text, st1)
               | None \<Rightarrow>
              (case users st1 uid of
                 None \<Rightarrow> (error_answer 404 user_not_found_error, st1)
               | Some profile \<Rightarrow>
              (case store_raises env (SelectRecent uid) of
                 Some text \<Rightarrow> (chat_failure text, st1)
               | None \<Rightarrow>
                   let messages =
                         prepare_messages (scan env) (ai_chat_messages st1) uid profile
                           sanitized_message;
                       answer = complete cfg (post env) messages (req_model req)
                                  sanitized_message is_emergency;
                       ai_response = fst answer;
                       tokens = snd answer;
                       message_id = fresh_uuid env;
                       now = clock_save env;
                       row = \<lparr>row_id = message_id, user_id = uid,
                              message_text = sanitized_message, response_text = ai_response,
                              model_name = req_model req, tokens_used = tokens,
                              is_user = True, created_at = now\<rparr>
                   in
                   (case store_raises env (InsertRow row) of
                      Some text \<Rightarrow> (chat_failure text, st1)
                    | None \<Rightarrow>
                   (case store_raises env Commit of
                      Some text \<Rightarrow>
                        (chat_failure text, st1\<lparr>ai_chat_messages := ai_chat_messages st1 @ [row]\<rparr>)
                    | None \<Rightarrow>
                        (\<lparr>status = 200,
                          body = \<lparr>success = True, error = None,
                                  data = Some \<lparr>data_response = ai_response,
                                               data_message_id = message_id,
                                               data_tokens_used = tokens,
                                               data_model = req_model req,
                                               data_timestamp = now,
                                               data_is_emergency = is_emergency\<rparr>,
                                  meta = Some \<lparr>meta_remaining = remaining rate_limit,
                                               meta_reset_after =
                                                 py_int_quot (resetAfter rate_limit) 1000\<rparr>\<rparr>,
                          headers = rate_headers\<rparr>,
                         st1\<lparr>ai_chat_messages := ai_chat_messages st1 @ [row]\<rparr>)))))))"

subsection \<open>DELETE /history\<close>







section \<open>The usage report of the provider, and sample inputs\<close>

definition usage_report :: "json \<Rightarrow> json option" where
  \<comment> \<open>the provider's usage report, the member \<open>usageMetadata.totalTokenCount\<close> of its
      answer; the source has no expression that reads it\<close>
  "usage_report result =
     Option.bind
       (subscript_key result [117, 115, 97, 103, 101, 77, 101, 116, 97, 100, 97, 116, 97])
       (\<lambda>u. subscript_key u
          [116, 111, 116, 97, 108, 84, 111, 107, 101, 110, 67, 111, 117, 110, 116])"

text \<open>
  Inputs on which the theorems below are exercised: a user \<open>"u"\<close> with an empty profile,
  a configuration with a key, the message \<open>"hi"\<close>, a message that is the emergency
  keyword for bleeding and one that holds the code point 0, a limiter in which the user has used up the window that began
  at instant 0, and an answer of the provider with the text \<open>"hi you"\<close> and a usage
  report of 42 tokens.
\<close>

definition sample_user :: pystr where
  "sample_user = [117]"

definition sample_profile :: profile where
  "sample_profile =
     \<lparr>diseases = None, allergies = None, medications = None, age = None, gender = None\<rparr>"

definition sample_config :: config where
  "sample_config = \<lparr>GEMINI_API_KEY = Some [107], GEMINI_MODEL = default_model\<rparr>"

definition sample_request :: raw_chat_request where
  "sample_request = \<lparr>raw_message = Some [104, 105], raw_model = None\<rparr>"

definition bleeding_request :: raw_chat_request where
  "bleeding_request = \<lparr>raw_message = Some [1606, 1586, 1610, 1601], raw_model = None\<rparr>"

definition exhausted_limiter :: AIRateLimiter where
  "exhausted_limiter =
     \<lparr>requests = [rate_key sample_user \<mapsto>
                     \<lparr>count = 60, window_start = 0, reset_time = 900000000\<rparr>],
      limit = 60, window_minutes = 15\<rparr>"

definition sample_state :: "AIRateLimiter \<Rightarrow> chat_row list \<Rightarrow> app_state" where
  "sample_state limiter table =
     \<lparr>ai_rate_limiter = limiter, users = [sample_user \<mapsto> sample_profile],
      ai_chat_messages = table\<rparr>"

definition sample_env :: "instant \<Rightarrow> http_outcome \<Rightarrow> chat_env" where
  \<comment> \<open>a store that meets the rows in the order of the table and raises nowhere\<close>
  "sample_env now outcome =
     \<lparr>clock_check = now, clock_save = now, fresh_uuid = [120], post = (\<lambda>request. outcome),
      scan = (\<lambda>rows. rows), store_raises = (\<lambda>statement. None)\<rparr>"

definition refuses_nul :: "store_statement \<Rightarrow> pystr option" where
  \<comment> \<open>a store that raises on the INSERT of a message that holds the code point 0, with
      the text \<open>"NUL"\<close>, and nowhere else\<close>
  "refuses_nul statement =
     (case statement of
        InsertRow row \<Rightarrow> if 0 \<in> set (message_text row) then Some [78, 85, 76] else None
      | _ \<Rightarrow> None)"

definition nul_request :: raw_chat_request where
  \<comment> \<open>the message of the three code points 97, 0, 98\<close>
  "nul_request = \<lparr>raw_message = Some [97, 0, 98], raw_model = None\<rparr>"

definition sample_answer :: json where
  "sample_answer =
     JObject
       [(candidates_key,
           JArray [JObject [(content_key,
             JObject [(parts_key,
               JArray [JObject [(text_key, JString [104, 105, 32, 121, 111, 117])]])])]]),
        ([117, 115, 97, 103, 101, 77, 101, 116, 97, 100, 97, 116, 97],
           JObject [([116, 111, 116, 97, 108, 84, 111, 107, 101, 110, 67, 111, 117, 110, 116],
                     JNumber 42)])]"

definition sample_row :: "pystr \<Rightarrow> instant \<Rightarrow> chat_row" where
  "sample_row uid t =
     \<lparr>row_id = [114], user_id = uid, message_text = [97], response_text = [98],
      model_name = default_model, tokens_used = 2, is_user = True, created_at = t\<rparr>"

section \<open>Properties of the rate limiter\<close>

lemma rate_key_inj [simp]: "rate_key u = rate_key v \<longleftrightarrow> u = v"
  by (simp add: rate_key_def)

lemma check_limit [simp]: "limit (snd (check self now u)) = limit self"
  by (simp add: check_def Let_def split: option.splits)

lemma check_window_minutes [simp]:
  "window_minutes (snd (check self now u)) = window_minutes self"
  by (simp add: check_def Let_def split: option.splits)

text \<open>A call for one user leaves the window of every other user as it is.\<close>

lemma check_other:
  "v \<noteq> u \<Longrightarrow> requests (snd (check s t v)) (rate_key u) = requests s (rate_key u)"
  by (simp add: check_def Let_def split: option.splits)

lemma check_in_window:
  assumes "requests s (rate_key u) = Some w"
      and "t \<le> window_start w + usec (window_minutes s * 60)"
  shows "check s t u =
     (if count w \<ge> limit s then
        (\<lparr>allowed = False, remaining = 0, resetAfter = py_int_quot (reset_time w - t) 1000\<rparr>, s)
      else
        (\<lparr>allowed = True, remaining = limit s - (count w + 1),
          resetAfter = py_int_quot (reset_time w - t) 1000\<rparr>,
         s\<lparr>requests := (requests s)(rate_key u \<mapsto> w\<lparr>count := count w + 1\<rparr>)\<rparr>))"
  using assms by (simp add: check_def Let_def)

lemma check_opens:
  assumes "case requests s (rate_key u) of None \<Rightarrow> True
           | Some w \<Rightarrow> t > window_start w + usec (window_minutes s * 60)"
  shows "check s t u =
        (\<lparr>allowed = True, remaining = limit s - 1, resetAfter = window_minutes s * 60 * 1000\<rparr>,
         s\<lparr>requests := (requests s)(rate_key u \<mapsto> new_window s t)\<rparr>)"
  using assms by (cases "requests s (rate_key u)") (simp_all add: check_def Let_def)

lemma check_rejected_unchanged:
  assumes "\<not> allowed (fst (check s now u))"
  shows "snd (check s now u) = s"
proof (cases "requests s (rate_key u)")
  case None
  then show ?thesis using assms by (simp add: check_def)
next
  case (Some w)
  then show ?thesis using assms by (simp add: check_def Let_def split: if_splits)
qed

lemma results_for_Nil [simp]: "results_for u [] rs = []"
  by (simp add: results_for_def)

lemma results_for_Cons [simp]:
  "results_for u ((t, v) # cs) (r # rs) =
     (if v = u then r # results_for u cs rs else results_for u cs rs)"
  by (simp add: results_for_def)

lemma check_all_Cons_fst:
  "fst (check_all s ((t, u) # cs)) = fst (check s t u) # fst (check_all (snd (check s t u)) cs)"
  by (simp split: prod.splits)

lemma check_all_Cons_snd:
  "snd (check_all s ((t, u) # cs)) = snd (check_all (snd (check s t u)) cs)"
  by (simp split: prod.splits)

declare check_all.simps(2) [simp del]

lemma user_results_Cons:
  "user_results s u ((t, v) # cs) =
     (if v = u then fst (check s t v) # user_results (snd (check s t v)) u cs
      else user_results (snd (check s t v)) u cs)"
  by (simp add: user_results_def check_all_Cons_fst)

lemma limiter_inv_init: "limiter_inv AIRateLimiter_init"
  by (simp add: limiter_inv_def AIRateLimiter_init_def)

lemma limiter_inv_check: "limiter_inv s \<Longrightarrow> limiter_inv (snd (check s t u))"
proof (cases "requests s (rate_key u)")
  case None
  assume "limiter_inv s"
  then show ?thesis using None
    by (simp add: limiter_inv_def check_def Let_def new_window_def)
next
  case (Some w)
  assume inv: "limiter_inv s"
  then have w: "1 \<le> count w \<and> count w \<le> 60 \<and> reset_time w = window_start w + usec (15 * 60)"
    using Some by (simp add: limiter_inv_def)
  then have "0 \<le> count w" by linarith
  then show ?thesis using inv Some
    by (simp add: limiter_inv_def check_def Let_def new_window_def)
qed

lemma limiter_inv_check_all: "limiter_inv s \<Longrightarrow> limiter_inv (snd (check_all s calls))"
proof (induction calls arbitrary: s)
  case Nil
  then show ?case by simp
next
  case (Cons c calls)
  obtain t u where c: "c = (t, u)" by (cases c)
  from Cons.prems have "limiter_inv (snd (check s t u))" by (rule limiter_inv_check)
  from Cons.IH [OF this] show ?case
    unfolding c check_all_Cons_snd .
qed

lemma limiter_inv_reachable: "limiter_inv (snd (check_all AIRateLimiter_init calls))"
  by (rule limiter_inv_check_all [OF limiter_inv_init])

text \<open>
  Inside a window: a user whose window holds \<open>count w\<close> requests and whose later calls
  are all made before the window ends has call number \<open>n\<close> (from 0) admitted exactly when
  \<open>count w + n\<close> is below the limit, whatever other users do in between.
\<close>

lemma in_window_results:
  assumes "requests s (rate_key u) = Some w"
      and "\<forall>(t, v) \<in> set calls. v = u \<longrightarrow> t \<le> window_start w + usec (window_minutes s * 60)"
      and "n < length (user_results s u calls)"
  shows "allowed (user_results s u calls ! n) = (count w + int n < limit s) \<and>
         remaining (user_results s u calls ! n) =
           (if count w + int n < limit s then limit s - (count w + int n + 1) else 0)"
  using assms
proof (induction calls arbitrary: s w n)
  case Nil
  then show ?case by (simp add: user_results_def)
next
  case (Cons c calls)
  obtain t v where c: "c = (t, v)" by (cases c)
  let ?r = "fst (check s t v)" and ?s' = "snd (check s t v)"
  have later: "\<forall>(t, v) \<in> set calls. v = u \<longrightarrow> t \<le> window_start w + usec (window_minutes ?s' * 60)"
    using Cons.prems(2) by simp
  show ?case
  proof (cases "v = u")
    case False
    have "requests ?s' (rate_key u) = Some w"
      using check_other [OF False, of s t] Cons.prems(1) by simp
    moreover have "n < length (user_results ?s' u calls)"
      using Cons.prems(3) False by (simp add: c user_results_Cons)
    ultimately show ?thesis
      using Cons.IH [of ?s' w n] later False by (simp add: c user_results_Cons)
  next
    case True
    have tw: "t \<le> window_start w + usec (window_minutes s * 60)"
      using Cons.prems(2) True by (simp add: c)
    note step = check_in_window [OF Cons.prems(1) tw]
    show ?thesis
    proof (cases "limit s \<le> count w")
      case full: True
      have r: "allowed ?r = False" "remaining ?r = 0" and s': "?s' = s"
        using step True full by simp_all
      show ?thesis
      proof (cases n)
        case 0
        then show ?thesis using r True full by (simp add: c user_results_Cons)
      next
        case (Suc m)
        have m: "m < length (user_results s u calls)"
          using Cons.prems(3) True Suc s' by (simp add: c user_results_Cons)
        have "\<forall>(t, v) \<in> set calls. v = u \<longrightarrow> t \<le> window_start w + usec (window_minutes s * 60)"
          using Cons.prems(2) by simp
        from Cons.IH [OF Cons.prems(1) this m] s'
        show ?thesis using True Suc full by (simp add: c user_results_Cons)
      qed
    next
      case room: False
      let ?w' = "w\<lparr>count := count w + 1\<rparr>"
      have r: "allowed ?r = True" "remaining ?r = limit s - (count w + 1)"
        and s': "?s' = s\<lparr>requests := (requests s)(rate_key u \<mapsto> ?w')\<rparr>"
        using step True room by simp_all
      have w': "requests ?s' (rate_key u) = Some ?w'" by (simp add: s')
      have later': "\<forall>(t, v) \<in> set calls. v = u \<longrightarrow>
          t \<le> window_start ?w' + usec (window_minutes ?s' * 60)"
        using later by simp
      show ?thesis
      proof (cases n)
        case 0
        then show ?thesis using r True room by (simp add: c user_results_Cons)
      next
        case (Suc m)
        have "m < length (user_results ?s' u calls)"
          using Cons.prems(3) True Suc by (simp add: c user_results_Cons)
        from Cons.IH [OF w' later' this]
        show ?thesis using True Suc by (simp add: c user_results_Cons add.assoc)
      qed
    qed
  qed
qed

text \<open>
  Claim C2. Let a run from the initial limiter reach a state in which a call of user
  \<open>u\<close> at \<open>t0\<close> opens a window, and let every later call of \<open>u\<close> be made no later than
  15 minutes after \<open>t0\<close>, calls of other users being interleaved at will. Then, counting
  the calls of \<open>u\<close> from the one that opened the window, calls 1 to 60 return
  \<open>allowed = True\<close> (call \<open>k\<close> with \<open>remaining = 60 - k\<close>), and call 61 and every later
  one return \<open>allowed = False\<close> with \<open>remaining = 0\<close>. (Index \<open>n\<close> is call \<open>n + 1\<close>.)
\<close>

theorem check_admits_sixty_per_window:
  assumes reach: "s = snd (check_all AIRateLimiter_init before)"
      and opens: "opens_window s t0 u"
      and within: "\<forall>(t, v) \<in> set calls. v = u \<longrightarrow> t \<le> t0 + usec (15 * 60)"
      and n: "n < length (user_results s u ((t0, u) # calls))"
  shows "allowed (user_results s u ((t0, u) # calls) ! n) = (n < 60) \<and>
         remaining (user_results s u ((t0, u) # calls) ! n) = (if n < 60 then 59 - int n else 0)"
proof -
  have inv: "limiter_inv s"
    using limiter_inv_reachable [of before] reach by simp
  then have wm: "window_minutes s = 15" and lim: "limit s = 60"
    by (simp_all add: limiter_inv_def)
  have "case requests s (rate_key u) of None \<Rightarrow> True
        | Some w \<Rightarrow> t0 > window_start w + usec (window_minutes s * 60)"
    using opens inv by (auto simp: opens_window_def limiter_inv_def split: option.splits)
  from check_opens [OF this] have first:
    "check s t0 u =
        (\<lparr>allowed = True, remaining = 59, resetAfter = 900000\<rparr>,
         s\<lparr>requests := (requests s)(rate_key u \<mapsto> new_window s t0)\<rparr>)"
    by (simp add: wm lim)
  let ?s' = "snd (check s t0 u)"
  have w: "requests ?s' (rate_key u) = Some (new_window s t0)"
    by (simp add: first)
  have later: "\<forall>(t, v) \<in> set calls. v = u \<longrightarrow>
      t \<le> window_start (new_window s t0) + usec (window_minutes ?s' * 60)"
    using within by (simp add: new_window_def wm)
  show ?thesis
  proof (cases n)
    case 0
    then show ?thesis by (simp add: first user_results_Cons)
  next
    case (Suc m)
    have "m < length (user_results ?s' u calls)"
      using n Suc by (simp add: user_results_Cons)
    from in_window_results [OF w later this]
    show ?thesis using Suc by (simp add: lim new_window_def user_results_Cons)
  qed
qed

text \<open>
  Claim C3. In every state that a run from the initial limiter reaches, a call of a
  user who has a window, made after the reset time of that window, returns
  \<open>allowed = True\<close> with \<open>remaining = limit - 1 = 59\<close> and the full window as
  \<open>resetAfter\<close>, and stores a window with \<open>count = 1\<close> that starts at the call and is
  reset 15 minutes after it.
\<close>

theorem check_after_reset_restarts_window:
  assumes reach: "s = snd (check_all AIRateLimiter_init calls)"
      and has: "requests s (rate_key u) = Some w"
      and later: "now > reset_time w"
  shows "fst (check s now u) =
           \<lparr>allowed = True, remaining = limit s - 1, resetAfter = 15 * 60 * 1000\<rparr> \<and>
         limit s - 1 = 59 \<and>
         requests (snd (check s now u)) (rate_key u) =
           Some \<lparr>count = 1, window_start = now, reset_time = now + usec (15 * 60)\<rparr>"
proof -
  have inv: "limiter_inv s"
    using limiter_inv_reachable [of calls] reach by simp
  then have wm: "window_minutes s = 15" and lim: "limit s = 60"
    and rt: "reset_time w = window_start w + usec (15 * 60)"
    using has by (simp_all add: limiter_inv_def)
  have "check s now u =
        (\<lparr>allowed = True, remaining = limit s - 1, resetAfter = window_minutes s * 60 * 1000\<rparr>,
         s\<lparr>requests := (requests s)(rate_key u \<mapsto> new_window s now)\<rparr>)"
    using has later rt wm by (intro check_opens) simp
  then show ?thesis by (simp add: wm lim new_window_def)
qed

text \<open>
  Claim C10. In every state that a sequence of calls of \<open>check\<close> reaches from the
  initial limiter, the configured limit is 60 and no stored window has a count above it;
  and a call that returns \<open>allowed = False\<close> in such a state leaves the whole limiter,
  so also that user's count, window start and reset time, as it was.
\<close>

theorem count_within_limit_and_rejection_changes_nothing:
  "limit (snd (check_all AIRateLimiter_init calls)) = 60 \<and>
   (\<forall>key w. requests (snd (check_all AIRateLimiter_init calls)) key = Some w \<longrightarrow>
      count w \<le> limit (snd (check_all AIRateLimiter_init calls))) \<and>
   (\<forall>now u. \<not> allowed (fst (check (snd (check_all AIRateLimiter_init calls)) now u)) \<longrightarrow>
      snd (check (snd (check_all AIRateLimiter_init calls)) now u) =
        snd (check_all AIRateLimiter_init calls))"
proof -
  let ?s = "snd (check_all AIRateLimiter_init calls)"
  have inv: "limiter_inv ?s" by (rule limiter_inv_reachable)
  then have "limit ?s = 60" and "\<forall>key w. requests ?s key = Some w \<longrightarrow> count w \<le> limit ?s"
    by (simp_all add: limiter_inv_def)
  moreover have "\<forall>now u. \<not> allowed (fst (check ?s now u)) \<longrightarrow> snd (check ?s now u) = ?s"
    using check_rejected_unchanged by blast
  ultimately show ?thesis by blast
qed

theorem check_admits_sixty_per_window_witness:
  "opens_window AIRateLimiter_init 0 [117] \<and>
   60 < length (user_results AIRateLimiter_init [117] ((0, [117]) # replicate 60 (5, [117]))) \<and>
   allowed (user_results AIRateLimiter_init [117] ((0, [117]) # replicate 60 (5, [117])) ! 59) \<and>
   remaining (user_results AIRateLimiter_init [117] ((0, [117]) # replicate 60 (5, [117])) ! 59) = 0 \<and>
   \<not> allowed (user_results AIRateLimiter_init [117] ((0, [117]) # replicate 60 (5, [117])) ! 60) \<and>
   remaining (user_results AIRateLimiter_init [117] ((0, [117]) # replicate 60 (5, [117])) ! 60) = 0"
proof -
  let ?calls = "replicate 60 (5 :: int, [117 :: nat])"
  have reach: "AIRateLimiter_init = snd (check_all AIRateLimiter_init [])" by simp
  have opens: "opens_window AIRateLimiter_init 0 [117]"
    by (simp add: opens_window_def AIRateLimiter_init_def)
  have within: "\<forall>(t, v) \<in> set ?calls. v = [117] \<longrightarrow> t \<le> 0 + usec (15 * 60)"
    by (simp add: usec_def)
  have len: "60 < length (user_results AIRateLimiter_init [117] ((0, [117]) # ?calls))"
    by code_simp
  then have len': "59 < length (user_results AIRateLimiter_init [117] ((0, [117]) # ?calls))"
    by linarith
  from check_admits_sixty_per_window [OF reach opens within len]
       check_admits_sixty_per_window [OF reach opens within len'] opens len
  show ?thesis by simp
qed

theorem check_after_reset_restarts_window_witness:
  "requests (snd (check_all AIRateLimiter_init [(0, [117])])) (rate_key [117]) =
     Some \<lparr>count = 1, window_start = 0, reset_time = 900000000\<rparr> \<and>
   fst (check (snd (check_all AIRateLimiter_init [(0, [117])])) 900000001 [117]) =
     \<lparr>allowed = True, remaining = 59, resetAfter = 900000\<rparr> \<and>
   requests (snd (check (snd (check_all AIRateLimiter_init [(0, [117])])) 900000001 [117]))
       (rate_key [117]) =
     Some \<lparr>count = 1, window_start = 900000001, reset_time = 1800000001\<rparr>"
proof -
  let ?s = "snd (check_all AIRateLimiter_init [(0, [117])])"
  have has: "requests ?s (rate_key [117]) =
      Some \<lparr>count = 1, window_start = 0, reset_time = 900000000\<rparr>"
    by (simp add: check_all_Cons_snd check_def AIRateLimiter_init_def new_window_def usec_def)
  have later: "900000001 > reset_time \<lparr>count = 1, window_start = 0, reset_time = 900000000\<rparr>"
    by simp
  from check_after_reset_restarts_window [OF refl has later] has
  show ?thesis by (simp add: usec_def)
qed

theorem count_within_limit_and_rejection_changes_nothing_witness:
  "requests (snd (check_all AIRateLimiter_init (replicate 61 (0, [117])))) (rate_key [117]) =
     Some \<lparr>count = 60, window_start = 0, reset_time = 900000000\<rparr> \<and>
   \<not> allowed (fst (check (snd (check_all AIRateLimiter_init (replicate 61 (0, [117])))) 7 [117])) \<and>
   snd (check (snd (check_all AIRateLimiter_init (replicate 61 (0, [117])))) 7 [117]) =
     snd (check_all AIRateLimiter_init (replicate 61 (0, [117])))"
proof -
  let ?s = "snd (check_all AIRateLimiter_init (replicate 61 (0, [117])))"
  let ?w = "\<lparr>count = 60, window_start = 0, reset_time = 900000000\<rparr>"
  have has: "requests ?s (rate_key [117]) = Some ?w"
    by code_simp
  have rejected: "\<not> allowed (fst (check ?s 7 [117]))"
    by code_simp
  have "count ?w \<le> limit ?s"
    using count_within_limit_and_rejection_changes_nothing [of "replicate 61 (0, [117])"] has
    by blast
  moreover have "snd (check ?s 7 [117]) = ?s"
    using count_within_limit_and_rejection_changes_nothing [of "replicate 61 (0, [117])"] rejected
    by blast
  ultimately show ?thesis using has rejected by blast
qed

section \<open>Properties of the message handling\<close>

lemma starts_with_iff: "starts_with s k \<longleftrightarrow> (\<exists>post. s = k @ post)"
  by (induction s k rule: starts_with.induct) auto

lemma py_in_iff: "py_in k s \<longleftrightarrow> (\<exists>pre post. s = pre @ k @ post)"
proof (induction s)
  case Nil
  then show ?case by simp
next
  case (Cons c cs)
  have "(\<exists>pre post. c # cs = pre @ k @ post) \<longleftrightarrow>
        (\<exists>post. c # cs = k @ post) \<or> (\<exists>pre post. cs = pre @ k @ post)"
  proof
    assume "\<exists>pre post. c # cs = pre @ k @ post"
    then obtain pre post where eq: "c # cs = pre @ k @ post" by blast
    show "(\<exists>post. c # cs = k @ post) \<or> (\<exists>pre post. cs = pre @ k @ post)"
    proof (cases pre)
      case Nil
      with eq show ?thesis by auto
    next
      case (Cons p ps)
      with eq have "cs = ps @ k @ post" by simp
      then show ?thesis by blast
    qed
  next
    assume "(\<exists>post. c # cs = k @ post) \<or> (\<exists>pre post. cs = pre @ k @ post)"
    then show "\<exists>pre post. c # cs = pre @ k @ post"
    proof
      assume "\<exists>post. c # cs = k @ post"
      then obtain post where "c # cs = [] @ k @ post" by auto
      then show ?thesis by blast
    next
      assume "\<exists>pre post. cs = pre @ k @ post"
      then obtain pre post where "c # cs = (c # pre) @ k @ post" by auto
      then show ?thesis by blast
    qed
  qed
  with Cons.IH show ?case by (simp add: starts_with_iff)
qed

lemma any_keyword_in_iff:
  "any_keyword_in ks m \<longleftrightarrow> (\<exists>keyword \<in> set ks. py_in keyword m)"
  by (induction ks) auto

lemma fallbacks_differ: "fallback_emergency \<noteq> fallback_general"
  by (simp add: fallback_emergency_def fallback_general_def)

lemma get_fallback_response_emergency:
  "get_fallback_response m e = fallback_emergency \<longleftrightarrow> e"
  using fallbacks_differ by (auto simp: get_fallback_response_def)

text \<open>
  The completion is read successfully exactly when the path
  \<open>['candidates'][0]['content']['parts'][0]['text']\<close> of the body leads to a string.
\<close>

lemma read_completion_failure:
  "(\<exists>e. read_completion messages result = Inl e) \<longleftrightarrow>
     (\<forall>t. candidate_text result \<noteq> Some (JString t))"
proof (cases "candidate_text result")
  case None
  then show ?thesis
    by (auto simp: read_completion_def split: option.splits)
next
  case (Some v)
  then obtain items cands where result: "result = JObject items"
      and cands: "map_of items candidates_key = Some cands"
      and first: "subscript_0 cands \<noteq> None"
    by (cases result) (auto simp: candidate_text_def split: Option.bind_splits)
  have present: "candidates_key \<in> fst ` set items"
    using cands by (metis domI dom_map_of_conv_image_fst)
  have "truthy cands"
    using first by (cases cands rule: subscript_0.cases) simp_all
  then show ?thesis
    using Some result cands present
    by (cases v) (simp_all add: read_completion_def Let_def)
qed

text \<open>
  \<open>call_gemini_api\<close> raises exactly when the key is not configured, the request times
  out or fails in transport, the status is not 200, the body is not JSON, or the body
  does not hold a text where the program looks for it.
\<close>

lemma call_gemini_api_failure:
  "(\<exists>e. call_gemini_api cfg send messages model = Inl e) \<longleftrightarrow>
     (case GEMINI_API_KEY cfg of
        None \<Rightarrow> True
      | Some api_key \<Rightarrow>
          api_key = [] \<or>
          (case send \<lparr>url_model = (if model = [] then GEMINI_MODEL cfg else model),
                      url_key = api_key, contents = format_contents messages []\<rparr> of
             HttpTimeout \<Rightarrow> True
           | HttpFailure \<Rightarrow> True
           | HttpResponse status_code payload \<Rightarrow>
               status_code \<noteq> 200 \<or>
               (case payload of
                  None \<Rightarrow> True
                | Some result \<Rightarrow> \<forall>t. candidate_text result \<noteq> Some (JString t))))"
  using read_completion_failure
  by (simp add: call_gemini_api_def split: option.splits http_outcome.splits)

section \<open>Properties of POST /chat\<close>

text \<open>The shape of the list that is passed to the completion call.\<close>

lemma length_recent_rows: "length (recent_rows sc table uid) \<le> 6"
  by (simp add: recent_rows_def)

lemma length_context_of: "length (context_of rows) = 2 * length rows"
  by (induction rows) simp_all

lemma context_of_no_system: "m \<in> set (context_of rows) \<Longrightarrow> role m \<noteq> System"
  by (induction rows) auto

lemma prepare_messages_shape:
  "hd (prepare_messages sc table uid p m) =
     \<lparr>role = System, content = create_system_prompt (Some p)\<rparr> \<and>
   last (prepare_messages sc table uid p m) = \<lparr>role = User, content = m\<rparr> \<and>
   length (filter (\<lambda>x. role x = System) (prepare_messages sc table uid p m)) = 1 \<and>
   length (conversation_context sc table uid) \<le> 12"
proof -
  have "filter (\<lambda>x. role x = System) (conversation_context sc table uid) = []"
    using context_of_no_system by (auto simp: filter_empty_conv conversation_context_def)
  moreover have "length (conversation_context sc table uid) \<le> 12"
    using length_recent_rows [of sc table uid]
    by (simp add: conversation_context_def length_context_of)
  ultimately show ?thesis
    by (simp add: prepare_messages_def)
qed

text \<open>
  The history is in chronological order, whatever the order of the table and whatever
  the order in which the store meets the rows.
\<close>

lemma context_rows_chronological:
  "sorted (map created_at (rev (recent_rows sc table uid)))"
proof -
  let ?xs = "sort_key created_at (sc (filter (\<lambda>r. user_id r = uid) table))"
  have "rev (recent_rows sc table uid) = drop (length ?xs - 6) ?xs"
    by (simp add: recent_rows_def rev_take)
  moreover have "sorted (map created_at ?xs)" by simp
  ultimately show ?thesis
    by (simp add: sorted_wrt_drop drop_map [symmetric] del: drop_map)
qed

text \<open>
  A store that rearranges the rows that match hands over as many rows, whatever the
  order: the number of history messages depends on the number of stored rows only.
\<close>

lemma conversation_context_length:
  assumes "length (sc (filter (\<lambda>r. user_id r = uid) table)) =
           length (filter (\<lambda>r. user_id r = uid) table)"
  shows "length (conversation_context sc table uid) =
           2 * min 6 (length (filter (\<lambda>r. user_id r = uid) table))"
  using assms
  by (simp add: conversation_context_def length_context_of recent_rows_def min.commute)

text \<open>
  Every list of rows in descending order of \<open>created_at\<close> is what the sorting returns
  for some order of meeting the rows, namely its reverse: the model leaves the store
  every order among rows with equal \<open>created_at\<close>.
\<close>

lemma descending_answer_has_a_scan:
  assumes "sorted (rev (map created_at rows))"
  shows "rev (sort_key created_at (rev rows)) = rows"
proof -
  have "sorted (map created_at (rev rows))"
    using assms by (simp add: rev_map)
  then have "sort_key created_at (rev rows) = rev rows"
    by (rule sort_key_id_if_sorted)
  then show ?thesis by simp
qed

text \<open>
  Claim C1, at a user with four stored exchanges, of four different instants, so that
  the store has one answer to the query. The query keeps up to six rows and every row
  holds an exchange, a user message and its response: the list passed to the completion
  call has the system message first and the new user message last, and between them
  eight history messages, four pairs, where the claim allows six messages, three pairs.
\<close>

theorem chat_context_holds_more_than_three_pairs:
  "map role
     (prepare_messages (\<lambda>rows. rows)
        [\<lparr>row_id = [49], user_id = [117], message_text = [97], response_text = [98],
          model_name = [], tokens_used = 2, is_user = True, created_at = 10\<rparr>,
         \<lparr>row_id = [50], user_id = [117], message_text = [99], response_text = [100],
          model_name = [], tokens_used = 2, is_user = True, created_at = 20\<rparr>,
         \<lparr>row_id = [51], user_id = [117], message_text = [101], response_text = [102],
          model_name = [], tokens_used = 2, is_user = True, created_at = 30\<rparr>,
         \<lparr>row_id = [52], user_id = [117], message_text = [103], response_text = [104],
          model_name = [], tokens_used = 2, is_user = True, created_at = 40\<rparr>]
        [117]
        \<lparr>diseases = None, allergies = None, medications = None, age = None, gender = None\<rparr>
        [104, 105]) =
     [System, User, Assistant, User, Assistant, User, Assistant, User, Assistant, User] \<and>
   length
     (conversation_context (\<lambda>rows. rows)
        [\<lparr>row_id = [49], user_id = [117], message_text = [97], response_text = [98],
          model_name = [], tokens_used = 2, is_user = True, created_at = 10\<rparr>,
         \<lparr>row_id = [50], user_id = [117], message_text = [99], response_text = [100],
          model_name = [], tokens_used = 2, is_user = True, created_at = 20\<rparr>,
         \<lparr>row_id = [51], user_id = [117], message_text = [101], response_text = [102],
          model_name = [], tokens_used = 2, is_user = True, created_at = 30\<rparr>,
         \<lparr>row_id = [52], user_id = [117], message_text = [103], response_text = [104],
          model_name = [], tokens_used = 2, is_user = True, created_at = 40\<rparr>]
        [117]) = 8"
  by (simp add: prepare_messages_def conversation_context_def recent_rows_def)

text \<open>
  Claim C5. When the schema accepts the request and the limiter's check returns
  \<open>allowed = False\<close>, the handler answers 429 with \<open>success = False\<close> and the text
  "... please try again after N minutes." where N is \<open>int(resetAfter / 60000)\<close>, without
  data; the table of chat messages is unchanged, and so is the whole state.
\<close>

theorem chat_rejected_answers_429_and_stores_nothing:
  assumes valid: "ChatSchema_load raw = Inr req"
      and rejected: "\<not> allowed (fst (check (ai_rate_limiter st) (clock_check env) uid))"
  shows "status (fst (chat lower cfg env st uid raw)) = 429 \<and>
         success (body (fst (chat lower cfg env st uid raw))) = False \<and>
         error (body (fst (chat lower cfg env st uid raw))) =
           Some (rate_limit_error_head
                 @ str_int (py_int_quot
                     (resetAfter (fst (check (ai_rate_limiter st) (clock_check env) uid))) 60000)
                 @ rate_limit_error_tail) \<and>
         data (body (fst (chat lower cfg env st uid raw))) = None \<and>
         ai_chat_messages (snd (chat lower cfg env st uid raw)) = ai_chat_messages st \<and>
         snd (chat lower cfg env st uid raw) = st"
  using valid rejected check_rejected_unchanged [OF rejected]
  by (simp add: chat_def Let_def error_answer_def)

text \<open>
  A statement of the store that raises before the row is stored makes the handler answer
  500 and leaves the table as it was.
\<close>

lemma chat_insert_raises:
  assumes "ChatSchema_load raw = Inr req"
      and "allowed (fst (check (ai_rate_limiter st) (clock_check env) uid))"
      and "sanitize_message (req_message req) \<noteq> []"
      and "store_raises env (SelectUser uid) = None"
      and "users st uid = Some p"
      and "store_raises env (SelectRecent uid) = None"
      and "store_raises env (InsertRow
             \<lparr>row_id = fresh_uuid env, user_id = uid,
              message_text = sanitize_message (req_message req),
              response_text =
                fst (complete cfg (post env)
                       (prepare_messages (scan env) (ai_chat_messages st) uid p
                          (sanitize_message (req_message req)))
                       (req_model req) (sanitize_message (req_message req))
                       (check_emergency_keywords lower (sanitize_message (req_message req)))),
              model_name = req_model req,
              tokens_used =
                snd (complete cfg (post env)
                       (prepare_messages (scan env) (ai_chat_messages st) uid p
                          (sanitize_message (req_message req)))
                       (req_model req) (sanitize_message (req_message req))
                       (check_emergency_keywords lower (sanitize_message (req_message req)))),
              is_user = True, created_at = clock_save env\<rparr>) = Some text"
  shows "fst (chat lower cfg env st uid raw) = chat_failure text \<and>
         ai_chat_messages (snd (chat lower cfg env st uid raw)) = ai_chat_messages st"
  using assms by (simp add: chat_def Let_def)

text \<open>
  Claim C4, as the source has it. When the request reaches the completion call (the
  schema accepts it, the limiter admits it, the sanitized message is not empty, the user
  has a profile), the call fails, and no statement of the store raises, the handler
  answers 200 with \<open>success = True\<close>; the response text is the fallback chosen by the
  emergency flag, the emergency text exactly when the flag is set; and the table of chat
  messages is the old one followed by one new row that holds the sanitized message and
  that fallback text.
\<close>

theorem chat_falls_back_when_completion_fails:
  assumes valid: "ChatSchema_load raw = Inr req"
      and admitted: "allowed (fst (check (ai_rate_limiter st) (clock_check env) uid))"
      and nonempty: "sanitize_message (req_message req) \<noteq> []"
      and known: "users st uid = Some p"
      and fails: "call_gemini_api cfg (post env)
                    (prepare_messages (scan env) (ai_chat_messages st) uid p
                       (sanitize_message (req_message req)))
                    (req_model req) = Inl e"
      and store: "\<forall>statement. store_raises env statement = None"
  shows "status (fst (chat lower cfg env st uid raw)) = 200 \<and>
         success (body (fst (chat lower cfg env st uid raw))) = True \<and>
         (\<exists>d. data (body (fst (chat lower cfg env st uid raw))) = Some d \<and>
            data_is_emergency d =
              check_emergency_keywords lower (sanitize_message (req_message req)) \<and>
            data_response d =
              (if data_is_emergency d then fallback_emergency else fallback_general) \<and>
            (data_response d = fallback_emergency \<longleftrightarrow> data_is_emergency d) \<and>
            (\<exists>row. ai_chat_messages (snd (chat lower cfg env st uid raw)) =
                      ai_chat_messages st @ [row] \<and>
                   user_id row = uid \<and>
                   message_text row = sanitize_message (req_message req) \<and>
                   response_text row = data_response d))"
  using valid admitted nonempty known fails store fallbacks_differ
  by (simp add: chat_def Let_def complete_def get_fallback_response_def)

lemma sample_request_valid:
  "ChatSchema_load sample_request = Inr \<lparr>req_message = [104, 105], req_model = default_model\<rparr>"
  by (simp add: ChatSchema_load_def sample_request_def)

lemma bleeding_request_valid:
  "ChatSchema_load bleeding_request =
     Inr \<lparr>req_message = [1606, 1586, 1610, 1601], req_model = default_model\<rparr>"
  by (simp add: ChatSchema_load_def bleeding_request_def)

lemma sanitize_bleeding: "sanitize_message [1606, 1586, 1610, 1601] = [1606, 1586, 1610, 1601]"
  by (simp add: sanitize_message_def py_strip_def isspace_def)

lemma bleeding_is_keyword: "[1606, 1586, 1610, 1601] \<in> set emergency_keywords"
  by (simp add: emergency_keywords_def)

lemma first_check_admits:
  "allowed (fst (check AIRateLimiter_init now uid))"
  by (simp add: check_def AIRateLimiter_init_def)

lemma str_int_10: "str_int 10 = [49, 48]"
  by (simp add: str_int_def digits.simps)

theorem chat_rejected_answers_429_and_stores_nothing_witness:
  "status (fst (chat (\<lambda>s. s) sample_config (sample_env 300000000 HttpTimeout)
             (sample_state exhausted_limiter [sample_row sample_user 5]) sample_user
             sample_request)) = 429 \<and>
   error (body (fst (chat (\<lambda>s. s) sample_config (sample_env 300000000 HttpTimeout)
             (sample_state exhausted_limiter [sample_row sample_user 5]) sample_user
             sample_request))) =
     Some (rate_limit_error_head @ [49, 48] @ rate_limit_error_tail) \<and>
   ai_chat_messages (snd (chat (\<lambda>s. s) sample_config (sample_env 300000000 HttpTimeout)
             (sample_state exhausted_limiter [sample_row sample_user 5]) sample_user
             sample_request)) = [sample_row sample_user 5]"
proof -
  let ?st = "sample_state exhausted_limiter [sample_row sample_user 5]"
  let ?env = "sample_env 300000000 HttpTimeout"
  have chk: "fst (check exhausted_limiter 300000000 sample_user) =
      \<lparr>allowed = False, remaining = 0, resetAfter = 600000\<rparr>"
    by (simp add: check_def exhausted_limiter_def usec_def py_int_quot_def)
  have rejected: "\<not> allowed (fst (check (ai_rate_limiter ?st) (clock_check ?env) sample_user))"
    by (simp add: sample_state_def sample_env_def chk)
  have minutes: "py_int_quot 600000 60000 = 10"
    by (simp add: py_int_quot_def)
  from chat_rejected_answers_429_and_stores_nothing [OF sample_request_valid rejected,
      of "\<lambda>s. s" sample_config]
  show ?thesis
    by (simp add: sample_state_def sample_env_def chk minutes str_int_10)
qed

theorem chat_falls_back_when_completion_fails_witness:
  "status (fst (chat (\<lambda>s. s) sample_config (sample_env 0 HttpTimeout)
             (sample_state AIRateLimiter_init []) sample_user bleeding_request)) = 200 \<and>
   success (body (fst (chat (\<lambda>s. s) sample_config (sample_env 0 HttpTimeout)
             (sample_state AIRateLimiter_init []) sample_user bleeding_request))) \<and>
   map_option data_response
     (data (body (fst (chat (\<lambda>s. s) sample_config (sample_env 0 HttpTimeout)
             (sample_state AIRateLimiter_init []) sample_user bleeding_request)))) =
     Some fallback_emergency \<and>
   map (\<lambda>r. (message_text r, response_text r))
     (ai_chat_messages (snd (chat (\<lambda>s. s) sample_config (sample_env 0 HttpTimeout)
             (sample_state AIRateLimiter_init []) sample_user bleeding_request))) =
     [([1606, 1586, 1610, 1601], fallback_emergency)]"
proof -
  let ?st = "sample_state AIRateLimiter_init []"
  let ?env = "sample_env 0 HttpTimeout"
  let ?req = "\<lparr>req_message = [1606, 1586, 1610, 1601], req_model = default_model\<rparr>"
  have admitted: "allowed (fst (check (ai_rate_limiter ?st) (clock_check ?env) sample_user))"
    by (simp add: sample_state_def first_check_admits)
  have nonempty: "sanitize_message (req_message ?req) \<noteq> []"
    by (simp add: sanitize_bleeding)
  have known: "users ?st sample_user = Some sample_profile"
    by (simp add: sample_state_def)
  have fails: "call_gemini_api sample_config (post ?env)
      (prepare_messages (scan ?env) (ai_chat_messages ?st) sample_user sample_profile
         (sanitize_message (req_message ?req)))
      (req_model ?req) = Inl ApiTimeout"
    by (simp add: call_gemini_api_def sample_config_def sample_env_def)
  have store: "\<forall>statement. store_raises ?env statement = None"
    by (simp add: sample_env_def)
  have emergency: "check_emergency_keywords (\<lambda>s. s) [1606, 1586, 1610, 1601]"
    using bleeding_is_keyword
    by (auto simp: check_emergency_keywords_def any_keyword_in_iff py_in_iff
        intro!: bexI [where x = "[1606, 1586, 1610, 1601]"] exI [where x = "[]"])
  from chat_falls_back_when_completion_fails
    [OF bleeding_request_valid admitted nonempty known fails store, of "\<lambda>s. s"]
  show ?thesis
    using emergency by (auto simp: sanitize_bleeding sample_state_def)
qed

text \<open>
  The claim as it was stated fails: the provider times out for the message of the code
  points 97, 0, 98, which the schema accepts, the limiter admits and sanitizing leaves
  as it is, and the store raises on the INSERT of that message; the handler answers 500
  with \<open>success = False\<close> and the table has no new row.
\<close>

lemma nul_request_valid:
  "ChatSchema_load nul_request = Inr \<lparr>req_message = [97, 0, 98], req_model = default_model\<rparr>"
  by (simp add: ChatSchema_load_def nul_request_def)

lemma sanitize_nul: "sanitize_message [97, 0, 98] = [97, 0, 98]"
  by (simp add: sanitize_message_def py_strip_def isspace_def)

theorem chat_store_refuses_message_counterexample:
  "ChatSchema_load nul_request = Inr \<lparr>req_message = [97, 0, 98], req_model = default_model\<rparr> \<and>
   allowed (fst (check AIRateLimiter_init 0 sample_user)) \<and>
   sanitize_message [97, 0, 98] = [97, 0, 98] \<and>
   call_gemini_api sample_config (\<lambda>request. HttpTimeout)
     (prepare_messages (\<lambda>rows. rows) [] sample_user sample_profile [97, 0, 98])
     default_model = Inl ApiTimeout \<and>
   status (fst (chat (\<lambda>s. s) sample_config
             ((sample_env 0 HttpTimeout)\<lparr>store_raises := refuses_nul\<rparr>)
             (sample_state AIRateLimiter_init []) sample_user nul_request)) = 500 \<and>
   \<not> success (body (fst (chat (\<lambda>s. s) sample_config
             ((sample_env 0 HttpTimeout)\<lparr>store_raises := refuses_nul\<rparr>)
             (sample_state AIRateLimiter_init []) sample_user nul_request))) \<and>
   ai_chat_messages (snd (chat (\<lambda>s. s) sample_config
             ((sample_env 0 HttpTimeout)\<lparr>store_raises := refuses_nul\<rparr>)
             (sample_state AIRateLimiter_init []) sample_user nul_request)) = []"
proof -
  let ?env = "(sample_env 0 HttpTimeout)\<lparr>store_raises := refuses_nul\<rparr>"
  let ?st = "sample_state AIRateLimiter_init []"
  let ?req = "\<lparr>req_message = [97, 0, 98], req_model = default_model\<rparr>"
  have fails: "call_gemini_api sample_config (\<lambda>request. HttpTimeout)
     (prepare_messages (\<lambda>rows. rows) [] sample_user sample_profile [97, 0, 98])
     default_model = Inl ApiTimeout"
    by (simp add: call_gemini_api_def sample_config_def)
  have answer: "fst (chat (\<lambda>s. s) sample_config ?env ?st sample_user nul_request) =
        chat_failure [78, 85, 76] \<and>
      ai_chat_messages (snd (chat (\<lambda>s. s) sample_config ?env ?st sample_user nul_request)) =
        ai_chat_messages ?st"
  proof (rule chat_insert_raises [OF nul_request_valid])
    show "allowed (fst (check (ai_rate_limiter ?st) (clock_check ?env) sample_user))"
      by (simp add: sample_state_def first_check_admits)
    show "sanitize_message (req_message ?req) \<noteq> []"
      by (simp add: sanitize_nul)
    show "store_raises ?env (SelectUser sample_user) = None"
      by (simp add: refuses_nul_def)
    show "users ?st sample_user = Some sample_profile"
      by (simp add: sample_state_def)
    show "store_raises ?env (SelectRecent sample_user) = None"
      by (simp add: refuses_nul_def)
    show "store_raises ?env (InsertRow
             \<lparr>row_id = fresh_uuid ?env, user_id = sample_user,
              message_text = sanitize_message (req_message ?req),
              response_text =
                fst (complete sample_config (post ?env)
                       (prepare_messages (scan ?env) (ai_chat_messages ?st) sample_user
                          sample_profile (sanitize_message (req_message ?req)))
                       (req_model ?req) (sanitize_message (req_message ?req))
                       (check_emergency_keywords (\<lambda>s. s) (sanitize_message (req_message ?req)))),
              model_name = req_model ?req,
              tokens_used =
                snd (complete sample_config (post ?env)
                       (prepare_messages (scan ?env) (ai_chat_messages ?st) sample_user
                          sample_profile (sanitize_message (req_message ?req)))
                       (req_model ?req) (sanitize_message (req_message ?req))
                       (check_emergency_keywords (\<lambda>s. s) (sanitize_message (req_message ?req)))),
              is_user = True, created_at = clock_save ?env\<rparr>) = Some [78, 85, 76]"
      by (simp add: refuses_nul_def sanitize_nul)
  qed
  show ?thesis
    using answer fails nul_request_valid sanitize_nul first_check_admits [of 0 sample_user]
    by (simp add: chat_failure_def sample_state_def)
qed

text \<open>
  Claim C6. \<open>check_emergency_keywords\<close> is true exactly when the lowercased message
  contains one of the configured keywords as a contiguous substring; and whenever the
  handler answers 200, the field \<open>is_emergency\<close> of its data is that value for the
  sanitized message.
\<close>

theorem emergency_flag_is_keyword_substring_match:
  "(check_emergency_keywords lower m \<longleftrightarrow>
      (\<exists>keyword \<in> set emergency_keywords. \<exists>pre suf. lower m = pre @ keyword @ suf)) \<and>
   (\<forall>req. ChatSchema_load raw = Inr req \<and> status (fst (chat lower cfg env st uid raw)) = 200 \<longrightarrow>
      map_option data_is_emergency (data (body (fst (chat lower cfg env st uid raw)))) =
        Some (check_emergency_keywords lower (sanitize_message (req_message req))))"
proof -
  have "check_emergency_keywords lower m \<longleftrightarrow>
      (\<exists>keyword \<in> set emergency_keywords. \<exists>pre suf. lower m = pre @ keyword @ suf)"
    by (simp add: check_emergency_keywords_def any_keyword_in_iff py_in_iff)
  moreover have "status (fst (chat lower cfg env st uid raw)) = 200 \<longrightarrow>
      map_option data_is_emergency (data (body (fst (chat lower cfg env st uid raw)))) =
        Some (check_emergency_keywords lower (sanitize_message (req_message req)))"
    if "ChatSchema_load raw = Inr req" for req
    using that
    by (simp add: chat_def Let_def error_answer_def chat_failure_def split: option.split)
  ultimately show ?thesis by blast
qed

theorem emergency_flag_is_keyword_substring_match_witness:
  "check_emergency_keywords (\<lambda>s. s) [104, 105, 32, 1606, 1586, 1610, 1601, 33] \<and>
   status (fst (chat (\<lambda>s. s) sample_config (sample_env 0 HttpTimeout)
             (sample_state AIRateLimiter_init []) sample_user bleeding_request)) = 200 \<and>
   map_option data_is_emergency
     (data (body (fst (chat (\<lambda>s. s) sample_config (sample_env 0 HttpTimeout)
             (sample_state AIRateLimiter_init []) sample_user bleeding_request)))) =
     Some (check_emergency_keywords (\<lambda>s. s) [1606, 1586, 1610, 1601])"
proof -
  let ?chat = "chat (\<lambda>s. s) sample_config (sample_env 0 HttpTimeout)
                 (sample_state AIRateLimiter_init []) sample_user bleeding_request"
  have occurs: "\<exists>keyword \<in> set emergency_keywords. \<exists>pre suf.
      [104, 105, 32, 1606, 1586, 1610, 1601, 33] = pre @ keyword @ suf"
  proof (intro bexI exI)
    show "[104, 105, 32, 1606, 1586, 1610, 1601, 33] =
        [104, 105, 32] @ [1606, 1586, 1610, 1601] @ [33 :: nat]"
      by simp
    show "[1606, 1586, 1610, 1601] \<in> set emergency_keywords"
      by (rule bleeding_is_keyword)
  qed
  have ok: "status (fst ?chat) = 200"
    by (simp add: chat_def Let_def bleeding_request_valid sample_state_def sample_env_def
        first_check_admits sanitize_bleeding)
  from emergency_flag_is_keyword_substring_match
    [of "\<lambda>s. s" "[104, 105, 32, 1606, 1586, 1610, 1601, 33]" bleeding_request sample_config
       "sample_env 0 HttpTimeout" "sample_state AIRateLimiter_init []" sample_user]
    occurs ok bleeding_request_valid
  show ?thesis by (simp add: sanitize_bleeding)
qed

section \<open>Properties of the completion call\<close>

text \<open>
  Claim C7, as the source has it. Whenever \<open>call_gemini_api\<close> returns, the token counts
  it reports are the word counts: the input count is the sum of the numbers of
  whitespace-delimited words of all prompt messages, the output count is that of the
  completion text, and the total is their sum. Nothing else of the provider's answer
  enters the result.
\<close>

theorem token_count_is_always_the_word_count:
  assumes "call_gemini_api cfg send messages model = Inr result"
  shows "total_tokens (api_usage result) =
           (\<Sum>msg\<leftarrow>messages. word_count (content msg)) + word_count (api_response result) \<and>
         input_tokens (api_usage result) = (\<Sum>msg\<leftarrow>messages. word_count (content msg)) \<and>
         output_tokens (api_usage result) = word_count (api_response result)"
proof -
  from assms obtain answer where "read_completion messages answer = Inr result"
    by (auto simp: call_gemini_api_def split: option.splits if_splits http_outcome.splits)
  then show ?thesis
    by (auto simp: read_completion_def Let_def split: option.splits if_splits json.splits)
qed

lemma sample_call:
  "call_gemini_api sample_config (\<lambda>request. HttpResponse 200 (Some sample_answer))
     [\<lparr>role = System, content = [97, 32, 98]\<rparr>, \<lparr>role = User, content = [99]\<rparr>] [] =
   Inr \<lparr>api_response = [104, 105, 32, 121, 111, 117],
        api_usage = \<lparr>total_tokens = 5, input_tokens = 3, output_tokens = 2\<rparr>\<rparr>"
  by (simp add: call_gemini_api_def sample_config_def sample_answer_def read_completion_def
      candidate_text_def candidates_key_def content_key_def parts_key_def text_key_def
      word_count_def py_split_def isspace_def)

theorem token_count_is_always_the_word_count_witness:
  "total_tokens (api_usage
     \<lparr>api_response = [104, 105, 32, 121, 111, 117],
      api_usage = \<lparr>total_tokens = 5, input_tokens = 3, output_tokens = 2\<rparr>\<rparr>) =
     word_count [97, 32, 98] + word_count [99] + word_count [104, 105, 32, 121, 111, 117]"
  using token_count_is_always_the_word_count [OF sample_call] by simp

text \<open>
  The claim as it was stated fails: the provider's answer carries a usage report of 42
  tokens, and the count that is returned is 5, the number of words.
\<close>

theorem usage_report_is_not_read_counterexample:
  "usage_report sample_answer = Some (JNumber 42) \<and>
   call_gemini_api sample_config (\<lambda>request. HttpResponse 200 (Some sample_answer))
     [\<lparr>role = System, content = [97, 32, 98]\<rparr>, \<lparr>role = User, content = [99]\<rparr>] [] =
   Inr \<lparr>api_response = [104, 105, 32, 121, 111, 117],
        api_usage = \<lparr>total_tokens = 5, input_tokens = 3, output_tokens = 2\<rparr>\<rparr>"
  using sample_call
  by (simp add: usage_report_def sample_answer_def candidates_key_def)

section \<open>Properties of DELETE /history\<close>




end
